theory Spec2Isabelle
  imports Main "HOL-Library.Word"
begin

section \<open>Gateway client of the sequential toggle runner\<close>

text \<open>
  A shallow embedding of the gateway client class \<open>OpenClawClient\<close> and of the device
  identity helpers that precede it in the sequential toggle runner. Library primitives of
  the Node runtime (hashing, signing, base64, PEM and DER export) are parameters; everything
  the runner itself computes is a definition below.
\<close>

subsection \<open>Strings and JavaScript truthiness\<close>

type_synonym byte = "8 word"

text \<open>
  Numbers that the client computes with are whole and non-negative. A token counter is below
  \<open>2 ^ 53\<close>, the range in which every whole number is a JavaScript number of its own and
  in which the difference of two counters is exact. The configured timeout is below
  \<open>2 ^ 52\<close>, so that the timeout with 30000 added is exact too. In these ranges
  \<open>String(n)\<close> writes the decimal digits.
\<close>

type_synonym counter = "53 word"
type_synonym millis = "52 word"

text \<open>\<open>Array.prototype.join\<close> on an array of strings.\<close>

fun join :: "string \<Rightarrow> string list \<Rightarrow> string" where
  "join sep [] = []"
| "join sep [x] = x"
| "join sep (x # y # ys) = x @ sep @ join sep (y # ys)"

text \<open>\<open>String(n)\<close> and template interpolation of a non-negative integer: decimal digits.\<close>

definition digit_char :: "nat \<Rightarrow> char" where
  "digit_char d = ''0123456789'' ! d"

function string_of_nat :: "nat \<Rightarrow> string" where
  "string_of_nat n =
     (if n < 10 then [digit_char n] else string_of_nat (n div 10) @ [digit_char (n mod 10)])"
  by pat_completeness auto
termination
  by (relation "measure id") auto

declare string_of_nat.simps [simp del]

text \<open>
  A value of type \<open>string | undefined\<close> used as a condition: \<open>undefined\<close> and the empty
  string are falsy.
\<close>

definition truthy :: "string option \<Rightarrow> bool" where
  "truthy x = (case x of None \<Rightarrow> False | Some s \<Rightarrow> s \<noteq> [])"

text \<open>\<open>x || d\<close> for an optional string \<open>x\<close> and a default \<open>d\<close>.\<close>

definition or_else :: "string option \<Rightarrow> string \<Rightarrow> string" where
  "or_else x d = (case x of None \<Rightarrow> d | Some s \<Rightarrow> if s = [] then d else s)"

subsection \<open>Device identity\<close>

text \<open>
  The runtime's cryptographic library. \<open>spki_der\<close> is
  \<open>createPublicKey(pem).export({type: 'spki', format: 'der'})\<close>, \<open>sha256\<close> the digest,
  \<open>ed25519_sign\<close> is \<open>crypto.sign(null, payload, createPrivateKey(pem))\<close> and \<open>base64\<close>
  is \<open>Buffer.toString('base64')\<close>.
\<close>

record crypto_lib =
  spki_der :: "string \<Rightarrow> byte list"
  sha256 :: "byte list \<Rightarrow> byte list"
  ed25519_sign :: "string \<Rightarrow> string \<Rightarrow> byte list"
  base64 :: "byte list \<Rightarrow> string"

record DeviceIdentity =
  deviceId :: string
  publicKeyPem :: string
  privateKeyPem :: string
  publicKeyBase64Url :: string

text \<open>The pair of PEM exports that \<open>generateKeyPairSync('ed25519')\<close> gives.\<close>

record keypair =
  publicPem :: string
  privatePem :: string

definition ED25519_SPKI_PREFIX :: "byte list" where
  "ED25519_SPKI_PREFIX =
     [0x30, 0x2a, 0x30, 0x05, 0x06, 0x03, 0x2b, 0x65, 0x70, 0x03, 0x21, 0x00]"

definition hex_digits :: string where
  "hex_digits = ''0123456789abcdef''"

definition hex_char :: "nat \<Rightarrow> char" where
  "hex_char d = hex_digits ! d"

text \<open>\<open>digest('hex')\<close>: two lowercase hexadecimal digits for each byte.\<close>

definition hex_of_bytes :: "byte list \<Rightarrow> string" where
  "hex_of_bytes bs = concat (map (\<lambda>b. [hex_char (unat b div 16), hex_char (unat b mod 16)]) bs)"

definition strip_trailing_eq :: "string \<Rightarrow> string" where
  "strip_trailing_eq s = rev (dropWhile (\<lambda>c. c = CHR ''='') (rev s))"

definition base64UrlEncode :: "crypto_lib \<Rightarrow> byte list \<Rightarrow> string" where
  "base64UrlEncode lib buf =
     strip_trailing_eq
       (map (\<lambda>c. if c = CHR ''/'' then CHR ''_'' else c)
         (map (\<lambda>c. if c = CHR ''+'' then CHR ''-'' else c) (base64 lib buf)))"

definition derivePublicKeyRaw :: "crypto_lib \<Rightarrow> string \<Rightarrow> byte list" where
  "derivePublicKeyRaw lib pem =
     (let spki = spki_der lib pem in
      if length spki = length ED25519_SPKI_PREFIX + 32 \<and>
         take (length ED25519_SPKI_PREFIX) spki = ED25519_SPKI_PREFIX
      then drop (length ED25519_SPKI_PREFIX) spki
      else spki)"

definition generateDeviceIdentity :: "crypto_lib \<Rightarrow> keypair \<Rightarrow> DeviceIdentity" where
  "generateDeviceIdentity lib kp =
     (let publicKeyRaw = derivePublicKeyRaw lib (publicPem kp) in
      \<lparr> deviceId = hex_of_bytes (sha256 lib publicKeyRaw),
        publicKeyPem = publicPem kp,
        privateKeyPem = privatePem kp,
        publicKeyBase64Url = base64UrlEncode lib publicKeyRaw \<rparr>)"

definition signDevicePayload :: "crypto_lib \<Rightarrow> string \<Rightarrow> string \<Rightarrow> string" where
  "signDevicePayload lib privKeyPem payload =
     base64UrlEncode lib (ed25519_sign lib privKeyPem payload)"

subsection \<open>The connect request\<close>

definition clientId :: string where "clientId = ''openclaw-control-ui''"
definition clientMode :: string where "clientMode = ''ui''"
definition role :: string where "role = ''operator''"
definition scopes :: "string list" where
  "scopes = [''operator.read'', ''operator.write'', ''operator.admin'']"

text \<open>
  The array \<open>payloadParts\<close> of \<open>sendConnectRequest\<close>: \<open>gatewayToken\<close> is the configured
  token, \<open>signedAt\<close> the reading of \<open>Date.now()\<close>, \<open>nonce\<close> the challenge's
  \<open>payload?.nonce\<close>.
\<close>

definition payloadParts :: "string \<Rightarrow> string option \<Rightarrow> nat \<Rightarrow> string option \<Rightarrow> string list" where
  "payloadParts devId gatewayToken signedAt nonce =
     (let token = or_else gatewayToken [];
          version = (if truthy nonce then ''v2'' else ''v1'');
          scopesStr = join '','' scopes;
          parts = [version, devId, clientId, clientMode, role, scopesStr,
                   string_of_nat signedAt, token]
      in if truthy nonce then parts @ [the nonce] else parts)"

definition signPayload :: "string \<Rightarrow> string option \<Rightarrow> nat \<Rightarrow> string option \<Rightarrow> string" where
  "signPayload devId gatewayToken signedAt nonce =
     join ''|'' (payloadParts devId gatewayToken signedAt nonce)"

text \<open>The \<open>device\<close> object of the connect frame.\<close>

record device_params =
  dev_id :: string
  dev_publicKey :: string
  dev_signature :: string
  dev_signedAt :: nat
  dev_nonce :: "string option"

definition connectDevice ::
  "crypto_lib \<Rightarrow> DeviceIdentity \<Rightarrow> string option \<Rightarrow> nat \<Rightarrow> string option \<Rightarrow> device_params" where
  "connectDevice lib ident gatewayToken signedAt nonce =
     \<lparr> dev_id = deviceId ident,
       dev_publicKey = publicKeyBase64Url ident,
       dev_signature =
         signDevicePayload lib (privateKeyPem ident)
           (signPayload (deviceId ident) gatewayToken signedAt nonce),
       dev_signedAt = signedAt,
       dev_nonce = nonce \<rparr>"

subsection \<open>Wire frames\<close>

record SessionMetadata =
  sessionKey :: string
  totalTokens :: "counter option"
  inputTokens :: "counter option"
  outputTokens :: "counter option"
  cacheCreationTokens :: "counter option"
  cacheReadTokens :: "counter option"

text \<open>The payload of a response, with the two members the client reads.\<close>

record payload =
  pl_runId :: "string option"
  pl_sessions :: "SessionMetadata list option"

record error_obj =
  err_message :: "string option"
  err_code :: "string option"

datatype phase = PhaseStart | PhaseEnd | PhaseError

record AgentLifecycleEvent =
  lc_phase :: phase
  lc_runId :: string
  lc_error :: "string option"

record agent_payload =
  ap_stream :: string
  ap_data :: AgentLifecycleEvent

datatype chat_state = Delta | Final | Aborted | ChatError

record block =
  block_type :: string
  block_text :: "string option"

text \<open>
  The three shapes of \<open>ChatEvent.message\<close>: a string, or an object whose \<open>content\<close> is
  absent, a string, a list of blocks or something else.
\<close>

datatype content = ContentString string | ContentBlocks "block list" | ContentOther

datatype chat_message = MessageString string | MessageObject "content option"

record ChatEvent =
  chat_runId :: string
  chat_sessionKey :: string
  chat_seq :: nat
  chat_state :: chat_state
  chat_message :: "chat_message option"

text \<open>
  An inbound frame after \<open>JSON.parse\<close>: a response \<open>{type: 'res', id, ok, payload, error}\<close>,
  an event \<open>{type: 'event', event: 'chat', payload}\<close>, an event
  \<open>{type: 'event', event: 'agent', payload}\<close>, or anything else.
\<close>

datatype frame =
    Res string bool "payload option" "error_obj option"
  | ChatFrame "ChatEvent option"
  | AgentFrame "agent_payload option"
  | OtherFrame

record ResponseFrame =
  rf_ok :: bool
  rf_id :: string
  rf_result :: "payload option"
  rf_payload :: "payload option"
  rf_error :: "error_obj option"
  rf_status :: string

text \<open>
  What an event handler receives: for a chat event the wrapper
  \<open>{event: 'chat', data, payload}\<close>, for an agent event the frame itself.
\<close>

datatype EventFrame = ChatEv ChatEvent | AgentEv agent_payload

datatype params =
    SessionsReset string
  | SessionsList string
  | AgentWait string nat
  | ChatSend string string string

record RequestFrame =
  rq_id :: string
  rq_method :: string
  rq_params :: params

subsection \<open>The client's state\<close>

text \<open>
  Closures are stored as data. A request's handler closes over its timer, its promise and
  the method; the lifecycle handler of \<open>waitForAgent\<close> over the run id, the deadline timer and
  the waiter's promise; the handler that \<open>sendPrompt\<close> registers over the handler it found
  under the run id. A timer's callback is the request's or the waiter's timeout. The pair of
  callbacks that \<open>waitForAgent\<close> chains on the request's promise with \<open>then\<close> and \<open>catch\<close>
  is a reaction of that promise.
\<close>

datatype 'a pstate = Pending | Fulfilled 'a | Rejected string

datatype msg_handler = RequestHandler nat nat string

datatype evt_handler =
    LifecycleHandler string nat nat
  | PromptHandler "evt_handler option"

datatype timer_cb =
    RequestTimeout string nat string
  | AgentWaitTimeout string nat

datatype reaction = AgentWaitSettle nat string nat

record RunnerConfig =
  cfg_sessionKey :: string
  agentWaitTimeoutMs :: millis
  gatewayToken :: "string option"

record client =
  config :: RunnerConfig
  ws :: bool
  connected :: bool
  messageHandlers :: "string \<rightharpoonup> msg_handler"
  eventHandlers :: "string \<rightharpoonup> evt_handler"
  accumulatedResponse :: string
  timers :: "nat \<rightharpoonup> nat \<times> timer_cb"
  next_timer :: nat
  request_promises :: "nat \<rightharpoonup> ResponseFrame pstate"
  request_reactions :: "nat \<rightharpoonup> reaction"
  next_request_promise :: nat
  wait_promises :: "nat \<rightharpoonup> unit pstate"
  next_wait_promise :: nat
  microtasks :: "(reaction \<times> ResponseFrame pstate) list"
  sent :: "RequestFrame list"
  now :: nat

text \<open>The state of a client after \<open>connect()\<close> has resolved.\<close>

definition connected_client :: "RunnerConfig \<Rightarrow> client" where
  "connected_client cfg =
     \<lparr> config = cfg, ws = True, connected = True,
       messageHandlers = Map.empty, eventHandlers = Map.empty, accumulatedResponse = [],
       timers = Map.empty, next_timer = 0,
       request_promises = Map.empty, request_reactions = Map.empty, next_request_promise = 0,
       wait_promises = Map.empty, next_wait_promise = 0,
       microtasks = [], sent = [], now = 0 \<rparr>"

subsection \<open>Timers and promises\<close>

definition setTimeout :: "timer_cb \<Rightarrow> nat \<Rightarrow> client \<Rightarrow> nat \<times> client" where
  "setTimeout cb delay s =
     (next_timer s,
      s\<lparr>timers := (timers s)(next_timer s \<mapsto> (delay, cb)), next_timer := Suc (next_timer s)\<rparr>)"

definition clearTimeout :: "nat \<Rightarrow> client \<Rightarrow> client" where
  "clearTimeout t s = s\<lparr>timers := (timers s)(t := None)\<rparr>"

text \<open>
  Settling a promise that is no longer pending does nothing. Settling a request's promise
  queues the reaction chained on it, if any, as a microtask.
\<close>

definition settle_request :: "nat \<Rightarrow> ResponseFrame pstate \<Rightarrow> client \<Rightarrow> client" where
  "settle_request p v s =
     (case request_promises s p of
        Some Pending \<Rightarrow>
          s\<lparr>request_promises := (request_promises s)(p \<mapsto> v),
            microtasks := microtasks s @
              (case request_reactions s p of None \<Rightarrow> [] | Some r \<Rightarrow> [(r, v)])\<rparr>
      | _ \<Rightarrow> s)"

definition settle_wait :: "nat \<Rightarrow> unit pstate \<Rightarrow> client \<Rightarrow> client" where
  "settle_wait p v s =
     (case wait_promises s p of
        Some Pending \<Rightarrow> s\<lparr>wait_promises := (wait_promises s)(p \<mapsto> v)\<rparr>
      | _ \<Rightarrow> s)"

text \<open>\<open>promise.then(...).catch(...)\<close> on a request's promise.\<close>

definition then_catch :: "nat \<Rightarrow> reaction \<Rightarrow> client \<Rightarrow> client" where
  "then_catch p r s =
     (case request_promises s p of
        Some Pending \<Rightarrow> s\<lparr>request_reactions := (request_reactions s)(p \<mapsto> r)\<rparr>
      | Some v \<Rightarrow> s\<lparr>microtasks := microtasks s @ [(r, v)]\<rparr>
      | None \<Rightarrow> s)"

text \<open>The two callbacks chained in \<open>waitForAgent\<close>.\<close>

fun run_job :: "reaction \<times> ResponseFrame pstate \<Rightarrow> client \<Rightarrow> client" where
  "run_job (AgentWaitSettle timeout runId wp, Fulfilled response) s =
     settle_wait wp (Fulfilled ())
       ((clearTimeout timeout s)\<lparr>eventHandlers := (eventHandlers s)(runId := None)\<rparr>)"
| "run_job (AgentWaitSettle timeout runId wp, Rejected err) s =
     (if eventHandlers s runId \<noteq> None
      then settle_wait wp (Rejected err)
             ((clearTimeout timeout s)\<lparr>eventHandlers := (eventHandlers s)(runId := None)\<rparr>)
      else s)"
| "run_job (AgentWaitSettle timeout runId wp, Pending) s = s"

text \<open>The microtask queue is emptied after each task.\<close>

definition drain :: "client \<Rightarrow> client" where
  "drain s = fold run_job (microtasks s) (s\<lparr>microtasks := []\<rparr>)"

subsection \<open>Handlers\<close>

text \<open>\<open>response.error?.message\<close>.\<close>

definition server_error_text :: "error_obj option \<Rightarrow> string option" where
  "server_error_text err = (case err of None \<Rightarrow> None | Some e \<Rightarrow> err_message e)"

text \<open>The handler that \<open>sendRequest\<close> stores under the request's id.\<close>

fun run_msg_handler :: "msg_handler \<Rightarrow> ResponseFrame \<Rightarrow> client \<Rightarrow> client" where
  "run_msg_handler (RequestHandler timeout p method) response s =
     (let s1 = clearTimeout timeout s in
      if \<not> rf_ok response
      then settle_request p
             (Rejected (or_else (server_error_text (rf_error response)) (method @ '' failed''))) s1
      else settle_request p (Fulfilled response) s1)"

text \<open>The loop over the content blocks of a delta in \<open>chatHandler\<close>.\<close>

fun append_blocks :: "block list \<Rightarrow> client \<Rightarrow> client" where
  "append_blocks [] s = s"
| "append_blocks (b # bs) s =
     append_blocks bs
       (if block_type b = ''text'' \<and> truthy (block_text b)
        then s\<lparr>accumulatedResponse := accumulatedResponse s @ the (block_text b)\<rparr>
        else s)"

definition chatHandler :: "EventFrame \<Rightarrow> client \<Rightarrow> client" where
  "chatHandler event s =
     (case event of
        ChatEv chatEvent \<Rightarrow>
          (if chat_state chatEvent = Delta then
             (case chat_message chatEvent of
                None \<Rightarrow> s
              | Some (MessageString m) \<Rightarrow>
                  (if m \<noteq> [] then s\<lparr>accumulatedResponse := accumulatedResponse s @ m\<rparr> else s)
              | Some (MessageObject None) \<Rightarrow> s
              | Some (MessageObject (Some (ContentString c))) \<Rightarrow>
                  (if c \<noteq> [] then s\<lparr>accumulatedResponse := accumulatedResponse s @ c\<rparr> else s)
              | Some (MessageObject (Some (ContentBlocks bs))) \<Rightarrow> append_blocks bs s
              | Some (MessageObject (Some ContentOther)) \<Rightarrow> s)
           else s)
      | AgentEv _ \<Rightarrow> s)"

text \<open>
  The handler of \<open>waitForAgent\<close>, and the handler of \<open>sendPrompt\<close>, which calls
  \<open>chatHandler\<close> and then the handler it replaced.
\<close>

fun run_evt_handler :: "evt_handler \<Rightarrow> EventFrame \<Rightarrow> client \<Rightarrow> client" where
  "run_evt_handler (LifecycleHandler runId timeout wp) event s =
     (case event of
        AgentEv pl \<Rightarrow>
          (if ap_stream pl = ''lifecycle'' then
             (case lc_phase (ap_data pl) of
                PhaseEnd \<Rightarrow>
                  settle_wait wp (Fulfilled ())
                    ((clearTimeout timeout s)\<lparr>eventHandlers := (eventHandlers s)(runId := None)\<rparr>)
              | PhaseError \<Rightarrow>
                  settle_wait wp (Rejected (or_else (lc_error (ap_data pl)) ''Agent error''))
                    ((clearTimeout timeout s)\<lparr>eventHandlers := (eventHandlers s)(runId := None)\<rparr>)
              | PhaseStart \<Rightarrow> s)
           else s)
      | ChatEv _ \<Rightarrow> s)"
| "run_evt_handler (PromptHandler None) event s = chatHandler event s"
| "run_evt_handler (PromptHandler (Some existingHandler)) event s =
     run_evt_handler existingHandler event (chatHandler event s)"

subsection \<open>Routing of inbound frames and timers\<close>

definition handleFrame :: "frame \<Rightarrow> client \<Rightarrow> client" where
  "handleFrame fr s =
     (case fr of
        Res fid ok pl err \<Rightarrow>
          (if fid \<noteq> [] then
             (case messageHandlers s fid of
                Some handler \<Rightarrow>
                  (let response = \<lparr> rf_ok = ok, rf_id = fid, rf_result = pl, rf_payload = pl,
                                    rf_error = err,
                                    rf_status = (if ok then ''ok'' else ''error'') \<rparr>;
                       s1 = run_msg_handler handler response s
                   in s1\<lparr>messageHandlers := (messageHandlers s1)(fid := None)\<rparr>)
              | None \<Rightarrow> s)
           else s)
      | ChatFrame None \<Rightarrow> s
      | ChatFrame (Some chatEvent) \<Rightarrow>
          (case eventHandlers s (chat_runId chatEvent) of
             Some handler \<Rightarrow> run_evt_handler handler (ChatEv chatEvent) s
           | None \<Rightarrow> s)
      | AgentFrame None \<Rightarrow> s
      | AgentFrame (Some pl) \<Rightarrow>
          (if ap_stream pl = ''lifecycle'' \<and> lc_runId (ap_data pl) \<noteq> [] then
             (case eventHandlers s (lc_runId (ap_data pl)) of
                Some handler \<Rightarrow> run_evt_handler handler (AgentEv pl) s
              | None \<Rightarrow> s)
           else s)
      | OtherFrame \<Rightarrow> s)"

text \<open>The callbacks of the two timers.\<close>

fun run_timer_cb :: "timer_cb \<Rightarrow> client \<Rightarrow> client" where
  "run_timer_cb (RequestTimeout messageId p method) s =
     settle_request p (Rejected (''Request timeout for '' @ method))
       (s\<lparr>messageHandlers := (messageHandlers s)(messageId := None)\<rparr>)"
| "run_timer_cb (AgentWaitTimeout runId wp) s =
     settle_wait wp
       (Rejected (''Agent wait timeout after '' @
                  string_of_nat (unat (agentWaitTimeoutMs (config s))) @ ''ms''))
       (s\<lparr>eventHandlers := (eventHandlers s)(runId := None)\<rparr>)"

text \<open>A timer that was cleared, or that has fired, does not fire.\<close>

definition fire_timer :: "nat \<Rightarrow> client \<Rightarrow> client" where
  "fire_timer t s =
     (case timers s t of
        None \<Rightarrow> s
      | Some (delay, cb) \<Rightarrow> run_timer_cb cb (s\<lparr>timers := (timers s)(t := None)\<rparr>))"

text \<open>
  One task of the event loop: a frame arrives, a timer fires, or time passes. The
  microtasks it queued run before the next task. When an active timer fires is left to the
  environment; \<open>Advance\<close> moves the clock that \<open>Date.now()\<close> reads.
\<close>

datatype event = Frame frame | TimerFires nat | Advance nat

definition deliver :: "event \<Rightarrow> client \<Rightarrow> client" where
  "deliver ev s =
     drain (case ev of
              Frame fr \<Rightarrow> handleFrame fr s
            | TimerFires t \<Rightarrow> fire_timer t s
            | Advance ms \<Rightarrow> s\<lparr>now := now s + ms\<rparr>)"

subsection \<open>Requests and the completion waiter\<close>

text \<open>
  \<open>sendRequest\<close>; \<open>messageId\<close> is the value of \<open>randomUUID()\<close>. The result is the promise
  the caller holds, a new object with no reaction chained on it yet.
\<close>

definition sendRequest :: "string \<Rightarrow> params \<Rightarrow> nat \<Rightarrow> string \<Rightarrow> client \<Rightarrow> nat \<times> client" where
  "sendRequest method ps timeoutMs messageId s =
     (let p = next_request_promise s in
      if \<not> ws s \<or> \<not> connected s then
        (p, s\<lparr>request_promises :=
                 (request_promises s)(p \<mapsto> Rejected ''Not connected to OpenClaw gateway''),
               request_reactions := (request_reactions s)(p := None),
               next_request_promise := Suc p\<rparr>)
      else
        (let s1 = s\<lparr>request_promises := (request_promises s)(p \<mapsto> Pending),
                     request_reactions := (request_reactions s)(p := None),
                     next_request_promise := Suc p\<rparr>;
             (timeout, s2) = setTimeout (RequestTimeout messageId p method) timeoutMs s1;
             s3 = s2\<lparr>messageHandlers :=
                       (messageHandlers s2)(messageId \<mapsto> RequestHandler timeout p method)\<rparr>
         in (p, s3\<lparr>sent := sent s3 @
                      [\<lparr> rq_id = messageId, rq_method = method, rq_params = ps \<rparr>]\<rparr>)))"

text \<open>\<open>waitForAgent\<close>; the result is the waiter's promise.\<close>

definition waitForAgent :: "string \<Rightarrow> string \<Rightarrow> client \<Rightarrow> nat \<times> client" where
  "waitForAgent runId messageId s =
     (let wp = next_wait_promise s;
          s1 = s\<lparr>wait_promises := (wait_promises s)(wp \<mapsto> Pending),
                  next_wait_promise := Suc wp\<rparr>;
          (timeout, s2) = setTimeout (AgentWaitTimeout runId wp)
                            (unat (agentWaitTimeoutMs (config s1))) s1;
          s3 = s2\<lparr>eventHandlers := (eventHandlers s2)(runId \<mapsto> LifecycleHandler runId timeout wp)\<rparr>;
          (rp, s4) = sendRequest ''agent.wait''
                       (AgentWait runId (unat (agentWaitTimeoutMs (config s3))))
                       (unat (agentWaitTimeoutMs (config s3)) + 30000) messageId s3
      in (wp, then_catch rp (AgentWaitSettle timeout runId wp) s4))"

definition disconnect :: "client \<Rightarrow> client" where
  "disconnect s =
     (if ws s
      then s\<lparr>messageHandlers := Map.empty, eventHandlers := Map.empty, ws := False,
              connected := False\<rparr>
      else s\<lparr>connected := False\<rparr>)"

subsection \<open>Awaiting a promise\<close>

text \<open>
  An \<open>await\<close> of the sequential caller: the pending microtasks run, and if the promise is
  still pending the event loop takes the next task. The tasks are given as a list; when the
  list ends with the promise still pending, the caller is left waiting (\<open>None\<close>). An awaited
  rejection is \<open>Inl\<close> with the message of the error.
\<close>

definition request_outcome :: "client \<Rightarrow> nat \<Rightarrow> (string + ResponseFrame) option" where
  "request_outcome s p =
     (case request_promises s p of
        Some (Fulfilled r) \<Rightarrow> Some (Inr r)
      | Some (Rejected e) \<Rightarrow> Some (Inl e)
      | _ \<Rightarrow> None)"

definition wait_outcome :: "client \<Rightarrow> nat \<Rightarrow> (string + unit) option" where
  "wait_outcome s p =
     (case wait_promises s p of
        Some (Fulfilled r) \<Rightarrow> Some (Inr r)
      | Some (Rejected e) \<Rightarrow> Some (Inl e)
      | _ \<Rightarrow> None)"

fun await_request ::
  "nat \<Rightarrow> event list \<Rightarrow> client \<Rightarrow> ((string + ResponseFrame) \<times> event list \<times> client) option" where
  "await_request p [] s =
     (case request_outcome (drain s) p of
        Some r \<Rightarrow> Some (r, [], drain s)
      | None \<Rightarrow> None)"
| "await_request p (ev # evs) s =
     (case request_outcome (drain s) p of
        Some r \<Rightarrow> Some (r, ev # evs, drain s)
      | None \<Rightarrow> await_request p evs (deliver ev (drain s)))"

fun await_wait ::
  "nat \<Rightarrow> event list \<Rightarrow> client \<Rightarrow> ((string + unit) \<times> event list \<times> client) option" where
  "await_wait p [] s =
     (case wait_outcome (drain s) p of
        Some r \<Rightarrow> Some (r, [], drain s)
      | None \<Rightarrow> None)"
| "await_wait p (ev # evs) s =
     (case wait_outcome (drain s) p of
        Some r \<Rightarrow> Some (r, ev # evs, drain s)
      | None \<Rightarrow> await_wait p evs (deliver ev (drain s)))"

subsection \<open>Session reset and token snapshots\<close>

text \<open>
  \<open>TokenUsage\<close>, with fields \<open>total\<close>, \<open>input\<close>, \<open>output\<close>, \<open>cacheCreation\<close> and
  \<open>cacheRead\<close>. A snapshot holds counters; the usage of one prompt holds differences of
  counters, which may be negative.
\<close>

record 'n TokenUsage =
  tu_total :: 'n
  tu_input :: 'n
  tu_output :: 'n
  tu_cacheCreation :: "'n option"
  tu_cacheRead :: "'n option"

text \<open>\<open>x || 0\<close> on a counter and \<open>d || undefined\<close> on a difference.\<close>

definition or_zero :: "counter option \<Rightarrow> counter" where
  "or_zero x = (case x of None \<Rightarrow> 0 | Some n \<Rightarrow> n)"

definition or_undefined :: "int \<Rightarrow> int option" where
  "or_undefined d = (if d = 0 then None else Some d)"

definition zero_tokens :: "counter TokenUsage" where
  "zero_tokens = \<lparr> tu_total = 0, tu_input = 0, tu_output = 0, tu_cacheCreation = None, tu_cacheRead = None \<rparr>"

text \<open>
  \<open>resetSession\<close>: the \<open>try\<close> block awaits the request, the \<open>catch\<close> block logs and
  returns.
\<close>

definition resetSession ::
  "string \<Rightarrow> event list \<Rightarrow> client \<Rightarrow> ((string + unit) \<times> event list \<times> client) option" where
  "resetSession messageId evs s =
     (let (p, s1) = sendRequest ''sessions.reset'' (SessionsReset (cfg_sessionKey (config s)))
                      30000 messageId s
      in case await_request p evs s1 of
           None \<Rightarrow> None
         | Some (Inr response, evs', s') \<Rightarrow> Some (Inr (), evs', s')
         | Some (Inl err, evs', s') \<Rightarrow> Some (Inr (), evs', s'))"

text \<open>
  What \<open>getSessionTokens\<close> returns once the awaited request has settled: the body of its
  \<open>try\<close> block on a response, its \<open>catch\<close> block on a rejection.
\<close>

definition session_tokens :: "string \<Rightarrow> string + ResponseFrame \<Rightarrow> counter TokenUsage" where
  "session_tokens key outcome =
     (case outcome of
        Inl err \<Rightarrow> zero_tokens
      | Inr response \<Rightarrow>
          (let sessions =
                 (case rf_result response of
                    None \<Rightarrow> []
                  | Some pl \<Rightarrow> (case pl_sessions pl of None \<Rightarrow> [] | Some ss \<Rightarrow> ss))
           in case find (\<lambda>s. sessionKey s = key) sessions of
                Some session \<Rightarrow>
                  \<lparr> tu_total = or_zero (totalTokens session),
                    tu_input = or_zero (inputTokens session),
                    tu_output = or_zero (outputTokens session),
                    tu_cacheCreation = cacheCreationTokens session,
                    tu_cacheRead = cacheReadTokens session \<rparr>
              | None \<Rightarrow> zero_tokens))"

definition getSessionTokens ::
  "string \<Rightarrow> event list \<Rightarrow> client \<Rightarrow>
     ((string + counter TokenUsage) \<times> event list \<times> client) option" where
  "getSessionTokens messageId evs s =
     (let (p, s1) = sendRequest ''sessions.list'' (SessionsList ''main'') 30000 messageId s
      in case await_request p evs s1 of
           None \<Rightarrow> None
         | Some (outcome, evs', s') \<Rightarrow>
             Some (Inr (session_tokens (cfg_sessionKey (config s')) outcome), evs', s'))"

subsection \<open>Sending a prompt\<close>

record PromptResult =
  response :: string
  tokens :: "int TokenUsage"
  timeMs :: int

text \<open>The values of \<open>randomUUID()\<close> that one call of \<open>sendPrompt\<close> uses.\<close>

record prompt_uuids =
  uuid_tokens_before :: string
  uuid_idempotency :: string
  uuid_chat_send :: string
  uuid_agent_wait :: string
  uuid_tokens_after :: string

text \<open>The token usage that \<open>sendPrompt\<close> computes from its two snapshots.\<close>

definition token_delta :: "counter TokenUsage \<Rightarrow> counter TokenUsage \<Rightarrow> int TokenUsage" where
  "token_delta endTokens startTokens =
     \<lparr> tu_total = uint (tu_total endTokens) - uint (tu_total startTokens),
       tu_input = uint (tu_input endTokens) - uint (tu_input startTokens),
       tu_output = uint (tu_output endTokens) - uint (tu_output startTokens),
       tu_cacheCreation =
         or_undefined (uint (or_zero (tu_cacheCreation endTokens))
                       - uint (or_zero (tu_cacheCreation startTokens))),
       tu_cacheRead =
         or_undefined (uint (or_zero (tu_cacheRead endTokens))
                       - uint (or_zero (tu_cacheRead startTokens))) \<rparr>"

text \<open>
  \<open>sendPrompt\<close> in three parts. The last part starts when the awaited waiter has resolved:
  it reads the clock, takes the closing snapshot and builds the result.
\<close>

definition sendPrompt_finish ::
  "nat \<Rightarrow> counter TokenUsage \<Rightarrow> prompt_uuids \<Rightarrow> event list \<Rightarrow> client \<Rightarrow>
     ((string + PromptResult) \<times> event list \<times> client) option" where
  "sendPrompt_finish startTime startTokens u evs s =
     (let endTime = now s in
      case getSessionTokens (uuid_tokens_after u) evs s of
        None \<Rightarrow> None
      | Some (Inl err, evs', s') \<Rightarrow> Some (Inl err, evs', s')
      | Some (Inr endTokens, evs', s') \<Rightarrow>
          Some (Inr \<lparr> response = accumulatedResponse s',
                      tokens = token_delta endTokens startTokens,
                      timeMs = int endTime - int startTime \<rparr>, evs', s'))"

text \<open>
  The middle part registers the chat handler under the run id, in front of the handler
  found there, and awaits \<open>waitForAgent\<close>.
\<close>

definition sendPrompt_wait ::
  "nat \<Rightarrow> counter TokenUsage \<Rightarrow> string \<Rightarrow> prompt_uuids \<Rightarrow> event list \<Rightarrow> client \<Rightarrow>
     ((string + PromptResult) \<times> event list \<times> client) option" where
  "sendPrompt_wait startTime startTokens runId u evs s =
     (let existingHandler = eventHandlers s runId;
          s1 = s\<lparr>eventHandlers := (eventHandlers s)(runId \<mapsto> PromptHandler existingHandler)\<rparr>;
          (wp, s2) = waitForAgent runId (uuid_agent_wait u) s1
      in case await_wait wp evs s2 of
           None \<Rightarrow> None
         | Some (Inl err, evs', s') \<Rightarrow> Some (Inl err, evs', s')
         | Some (Inr done, evs', s') \<Rightarrow> sendPrompt_finish startTime startTokens u evs' s')"

text \<open>
  The first part reads the clock, takes the opening snapshot, empties the accumulated
  response, sends \<open>chat.send\<close> and reads the run id of its response.
\<close>

definition sendPrompt ::
  "string \<Rightarrow> prompt_uuids \<Rightarrow> event list \<Rightarrow> client \<Rightarrow>
     ((string + PromptResult) \<times> event list \<times> client) option" where
  "sendPrompt prompt u evs s =
     (let startTime = now s in
      case getSessionTokens (uuid_tokens_before u) evs s of
        None \<Rightarrow> None
      | Some (Inl err, evs1, s1) \<Rightarrow> Some (Inl err, evs1, s1)
      | Some (Inr startTokens, evs1, s1) \<Rightarrow>
          (let s2 = s1\<lparr>accumulatedResponse := []\<rparr>;
               (p, s3) = sendRequest ''chat.send''
                           (ChatSend (cfg_sessionKey (config s2)) prompt (uuid_idempotency u))
                           30000 (uuid_chat_send u) s2
           in case await_request p evs1 s3 of
                None \<Rightarrow> None
              | Some (Inl err, evs2, s4) \<Rightarrow> Some (Inl err, evs2, s4)
              | Some (Inr sendResponse, evs2, s4) \<Rightarrow>
                  (case (case rf_result sendResponse of None \<Rightarrow> None | Some pl \<Rightarrow> pl_runId pl) of
                     None \<Rightarrow> Some (Inl ''No runId received from chat.send'', evs2, s4)
                   | Some runId \<Rightarrow>
                       if runId = []
                       then Some (Inl ''No runId received from chat.send'', evs2, s4)
                       else sendPrompt_wait startTime startTokens runId u evs2 s4)))"

text \<open>The time that passes during a sequence of tasks.\<close>

fun elapsed_in :: "event list \<Rightarrow> nat" where
  "elapsed_in [] = 0"
| "elapsed_in (Advance ms # evs) = ms + elapsed_in evs"
| "elapsed_in (Frame fr # evs) = elapsed_in evs"
| "elapsed_in (TimerFires t # evs) = elapsed_in evs"

text \<open>What an awaited call returned, and the clock when it returned.\<close>

definition returned :: "('r \<times> event list \<times> client) option \<Rightarrow> 'r option" where
  "returned x = map_option fst x"

definition clock_after :: "('r \<times> event list \<times> client) option \<Rightarrow> nat option" where
  "clock_after x = map_option (\<lambda>(r, evs, s). now s) x"

subsection \<open>Waiters and requests in flight\<close>

text \<open>
  A completion waiter is outstanding for a run, between two tasks, when its lifecycle
  handler is the one registered under the run id, its deadline timer is active and its
  promise is pending.
\<close>

definition outstanding_waiter :: "client \<Rightarrow> string \<Rightarrow> nat \<Rightarrow> nat \<Rightarrow> bool" where
  "outstanding_waiter s runId timeout wp \<longleftrightarrow>
     eventHandlers s runId = Some (LifecycleHandler runId timeout wp)
     \<and> (case timers s timeout of
          Some (delay, cb) \<Rightarrow> cb = AgentWaitTimeout runId wp
        | None \<Rightarrow> False)
     \<and> wait_promises s wp = Some Pending
     \<and> microtasks s = []"

text \<open>
  The \<open>agent.wait\<close> request of a waiter is in flight, between two tasks, when its handler is
  stored under its id, its promise is pending and the waiter's callbacks are chained on it.
\<close>

definition agent_wait_in_flight ::
  "client \<Rightarrow> string \<Rightarrow> nat \<Rightarrow> nat \<Rightarrow> nat \<Rightarrow> string \<Rightarrow> nat \<Rightarrow> bool" where
  "agent_wait_in_flight s messageId t p timeout runId wp \<longleftrightarrow>
     messageId \<noteq> []
     \<and> messageHandlers s messageId = Some (RequestHandler t p ''agent.wait'')
     \<and> request_promises s p = Some Pending
     \<and> request_reactions s p = Some (AgentWaitSettle timeout runId wp)
     \<and> microtasks s = []"

subsection \<open>Sample inputs\<close>

text \<open>
  A stand-in for the runtime's library, whose digest keeps the first two bytes, and a
  configuration. They serve to run the definitions on concrete inputs.
\<close>

definition demo_lib :: crypto_lib where
  "demo_lib = \<lparr> spki_der = (\<lambda>pem. ED25519_SPKI_PREFIX @ replicate 32 0xab),
                 sha256 = (\<lambda>bs. take 2 bs),
                 ed25519_sign = (\<lambda>k p. []),
                 base64 = (\<lambda>bs. []) \<rparr>"

definition demo_config :: RunnerConfig where
  "demo_config = \<lparr> cfg_sessionKey = ''agent:main:test'', agentWaitTimeoutMs = 600000,
                    gatewayToken = None \<rparr>"

definition demo_session :: "counter \<Rightarrow> counter \<Rightarrow> counter \<Rightarrow> SessionMetadata" where
  "demo_session t i out =
     \<lparr> sessionKey = ''agent:main:test'', totalTokens = Some t, inputTokens = Some i,
       outputTokens = Some out, cacheCreationTokens = None, cacheReadTokens = None \<rparr>"

definition demo_delta :: "nat \<Rightarrow> string \<Rightarrow> event" where
  "demo_delta n m =
     Frame (ChatFrame (Some \<lparr> chat_runId = ''run-1'', chat_sessionKey = ''agent:main:test'',
                              chat_seq = n, chat_state = Delta,
                              chat_message = Some (MessageString m) \<rparr>))"

definition demo_lifecycle :: "phase \<Rightarrow> frame" where
  "demo_lifecycle ph =
     AgentFrame (Some \<lparr> ap_stream = ''lifecycle'',
                        ap_data = \<lparr> lc_phase = ph, lc_runId = ''run-1'', lc_error = None \<rparr> \<rparr>)"

definition demo_uuids :: prompt_uuids where
  "demo_uuids = \<lparr> uuid_tokens_before = ''u1'', uuid_idempotency = ''k'', uuid_chat_send = ''u2'',
                   uuid_agent_wait = ''u3'', uuid_tokens_after = ''u4'' \<rparr>"

text \<open>
  One prompt: the opening session listing, the response of \<open>chat.send\<close> with the run id,
  three deltas, the end of the run after 1500 ms, and the closing session listing 250 ms
  later.
\<close>

definition demo_script :: "event list" where
  "demo_script =
    [Frame (Res ''u1'' True
        (Some \<lparr>pl_runId = None, pl_sessions = Some [demo_session 100 60 40]\<rparr>) None),
     Frame (Res ''u2'' True (Some \<lparr>pl_runId = Some ''run-1'', pl_sessions = None\<rparr>) None),
     demo_delta 1 ''Hel'', demo_delta 2 ''lo, '', demo_delta 3 ''world'',
     Advance 1500,
     Frame (demo_lifecycle PhaseEnd),
     Advance 250,
     Frame (Res ''u4'' True
        (Some \<lparr>pl_runId = None, pl_sessions = Some [demo_session 150 90 60]\<rparr>) None)]"



section \<open>Properties\<close>

subsection \<open>Device identity\<close>

lemma hex_char_lower: "d < 16 \<Longrightarrow> hex_char d \<in> set hex_digits"
  unfolding hex_char_def by (rule nth_mem) (simp add: hex_digits_def)

lemma hex_of_bytes_lower: "set (hex_of_bytes bs) \<subseteq> set hex_digits"
proof -
  have "hex_char (unat b div 16) \<in> set hex_digits"
       "hex_char (unat b mod 16) \<in> set hex_digits" for b :: byte
    using unsigned_less [of b, where 'a = nat] by (simp_all add: hex_char_lower)
  then show ?thesis
    unfolding hex_of_bytes_def by auto
qed

lemma derivePublicKeyRaw_strips:
  assumes "spki_der lib pem = ED25519_SPKI_PREFIX @ raw" and "length raw = 32"
  shows "derivePublicKeyRaw lib pem = raw"
  using assms by (simp add: derivePublicKeyRaw_def Let_def)

text \<open>
  Claim C7. The device id is a function of the public key alone: when the key's SPKI
  encoding is the Ed25519 algorithm identifier followed by the 32 raw bytes, the id is the
  hexadecimal digest of those 32 bytes, written with the digits 0-9 and a-f only, and two
  key pairs with the same public key have the same id.
\<close>

theorem deviceId_pure_function_of_public_key:
  assumes "spki_der lib (publicPem kp) = ED25519_SPKI_PREFIX @ raw" and "length raw = 32"
  shows "deviceId (generateDeviceIdentity lib kp) = hex_of_bytes (sha256 lib raw)
       \<and> set (deviceId (generateDeviceIdentity lib kp)) \<subseteq> set hex_digits
       \<and> (\<forall>kp'. publicPem kp' = publicPem kp \<longrightarrow>
             deviceId (generateDeviceIdentity lib kp') = deviceId (generateDeviceIdentity lib kp))"
  using derivePublicKeyRaw_strips [OF assms] hex_of_bytes_lower
  by (simp add: generateDeviceIdentity_def Let_def)

theorem deviceId_pure_function_of_public_key_witness:
  "spki_der demo_lib (publicPem \<lparr>publicPem = ''pk'', privatePem = ''sk''\<rparr>)
     = ED25519_SPKI_PREFIX @ replicate 32 0xab
   \<and> length (replicate 32 (0xab :: byte)) = 32
   \<and> deviceId (generateDeviceIdentity demo_lib \<lparr>publicPem = ''pk'', privatePem = ''sk''\<rparr>) = ''abab''
   \<and> deviceId (generateDeviceIdentity demo_lib \<lparr>publicPem = ''pk'', privatePem = ''other''\<rparr>) = ''abab''"
proof -
  have h1: "spki_der demo_lib (publicPem \<lparr>publicPem = ''pk'', privatePem = ''sk''\<rparr>)
     = ED25519_SPKI_PREFIX @ replicate 32 0xab" by (simp add: demo_lib_def)
  have h2: "length (replicate 32 (0xab :: byte)) = 32" by simp
  have "sha256 demo_lib (replicate 32 0xab) = [0xab, 0xab]"
    by (simp add: demo_lib_def numeral_2_eq_2)
  moreover have "hex_of_bytes [0xab, 0xab] = ''abab''"
    by (simp add: hex_of_bytes_def hex_char_def hex_digits_def)
  ultimately have hx: "hex_of_bytes (sha256 demo_lib (replicate 32 0xab)) = ''abab''"
    by simp
  from deviceId_pure_function_of_public_key [OF h1 h2] hx h1 h2
  show ?thesis by simp
qed

subsection \<open>The connect signature\<close>

text \<open>
  Claim C6, as the code has it. The signature of the connect request is computed over the
  fields version, device id, client id, client mode, role, comma-joined scopes, decimal
  signing time and token, joined with a vertical bar; the version is v2 and the nonce is a
  ninth field exactly when the challenge's nonce is a non-empty string, and the version is v1
  with eight fields otherwise, also when the challenge carries an empty nonce.
\<close>

theorem connect_signature_payload:
  "dev_signature (connectDevice lib ident token signedAt nonce) =
     signDevicePayload lib (privateKeyPem ident)
       (join ''|''
          ([if truthy nonce then ''v2'' else ''v1'', deviceId ident, ''openclaw-control-ui'',
            ''ui'', ''operator'', ''operator.read,operator.write,operator.admin'',
            string_of_nat signedAt, or_else token []]
           @ (if truthy nonce then [the nonce] else [])))"
  by (simp add: connectDevice_def signPayload_def payloadParts_def Let_def clientId_def
      clientMode_def role_def scopes_def)

text \<open>
  A challenge that supplies the empty string as its nonce is answered with the v1 payload
  of eight fields, not with a v2 payload whose ninth field is that nonce.
\<close>

theorem connect_signature_empty_nonce_counterexample:
  "signPayload ''dev'' (Some ''tok'') 5 (Some []) =
     ''v1|dev|openclaw-control-ui|ui|operator|operator.read,operator.write,operator.admin|5|tok''
   \<and> signPayload ''dev'' (Some ''tok'') 5 (Some []) \<noteq>
     ''v2|dev|openclaw-control-ui|ui|operator|operator.read,operator.write,operator.admin|5|tok|''"
  by (simp add: signPayload_def payloadParts_def Let_def clientId_def truthy_def or_else_def
      clientMode_def role_def scopes_def string_of_nat.simps digit_char_def)

lemmas run_defs = sendPrompt_def sendPrompt_wait_def sendPrompt_finish_def getSessionTokens_def
  resetSession_def sendRequest_def setTimeout_def waitForAgent_def then_catch_def
  deliver_def handleFrame_def drain_def clearTimeout_def settle_request_def settle_wait_def
  fire_timer_def request_outcome_def wait_outcome_def session_tokens_def token_delta_def
  chatHandler_def server_error_text_def or_zero_def or_undefined_def zero_tokens_def
  connected_client_def demo_config_def returned_def clock_after_def Let_def

subsection \<open>Single tasks\<close>

lemma sendRequest_connected:
  assumes "ws s" "connected s"
  shows "sendRequest method ps timeoutMs mid s =
     (next_request_promise s,
      s\<lparr>request_promises := (request_promises s)(next_request_promise s \<mapsto> Pending),
        request_reactions := (request_reactions s)(next_request_promise s := None),
        next_request_promise := Suc (next_request_promise s),
        timers := (timers s)(next_timer s \<mapsto> (timeoutMs, RequestTimeout mid (next_request_promise s) method)),
        next_timer := Suc (next_timer s),
        messageHandlers := (messageHandlers s)(mid \<mapsto> RequestHandler (next_timer s) (next_request_promise s) method),
        sent := sent s @ [\<lparr> rq_id = mid, rq_method = method, rq_params = ps \<rparr>]\<rparr>)"
  using assms by (simp add: sendRequest_def setTimeout_def Let_def)

lemma sendRequest_not_connected:
  assumes "\<not> (ws s \<and> connected s)"
  shows "sendRequest method ps timeoutMs mid s =
     (next_request_promise s,
      s\<lparr>request_promises := (request_promises s)(next_request_promise s \<mapsto>
           Rejected ''Not connected to OpenClaw gateway''),
        request_reactions := (request_reactions s)(next_request_promise s := None),
        next_request_promise := Suc (next_request_promise s)\<rparr>)"
  using assms by (auto simp add: sendRequest_def Let_def)

lemma deliver_response_pending:
  assumes "mid \<noteq> []" "microtasks s = []"
      and "messageHandlers s mid = Some (RequestHandler t p method)"
      and "request_promises s p = Some Pending" "request_reactions s p = None"
  shows "deliver (Frame (Res mid ok pl err)) s =
           s\<lparr>timers := (timers s)(t := None),
             request_promises := (request_promises s)(p \<mapsto>
               (if ok then Fulfilled \<lparr> rf_ok = True, rf_id = mid, rf_result = pl,
                              rf_payload = pl, rf_error = err, rf_status = ''ok'' \<rparr>
                else Rejected (or_else (server_error_text err) (method @ '' failed'')))),
             messageHandlers := (messageHandlers s)(mid := None)\<rparr>"
  using assms
  by (simp add: deliver_def handleFrame_def drain_def clearTimeout_def settle_request_def
      Let_def)

lemma deliver_response_unknown:
  assumes "microtasks s = []" "messageHandlers s mid = None"
  shows "deliver (Frame (Res mid ok pl err)) s = s"
  using assms by (simp add: deliver_def handleFrame_def drain_def)

lemma deliver_timer_inactive:
  assumes "microtasks s = []" "timers s t = None"
  shows "deliver (TimerFires t) s = s"
  using assms by (simp add: deliver_def fire_timer_def drain_def)

lemma deliver_request_timeout:
  assumes "microtasks s = []" "timers s t = Some (d, RequestTimeout mid p method)"
      and "request_promises s p = Some Pending" "request_reactions s p = None"
  shows "deliver (TimerFires t) s =
           s\<lparr>timers := (timers s)(t := None),
             messageHandlers := (messageHandlers s)(mid := None),
             request_promises := (request_promises s)(p \<mapsto> Rejected (''Request timeout for '' @ method))\<rparr>"
  using assms
  by (simp add: deliver_def fire_timer_def drain_def settle_request_def)

lemma deliver_lifecycle_end:
  assumes "outstanding_waiter s runId timeout wp" and "runId \<noteq> []"
  shows "deliver (Frame (AgentFrame (Some \<lparr> ap_stream = ''lifecycle'',
             ap_data = \<lparr> lc_phase = PhaseEnd, lc_runId = runId, lc_error = e \<rparr> \<rparr>))) s =
           s\<lparr>timers := (timers s)(timeout := None),
             eventHandlers := (eventHandlers s)(runId := None),
             wait_promises := (wait_promises s)(wp \<mapsto> Fulfilled ())\<rparr>"
  using assms
  by (simp add: outstanding_waiter_def deliver_def handleFrame_def drain_def clearTimeout_def
      settle_wait_def)

lemma deliver_agent_wait_deadline:
  assumes "outstanding_waiter s runId timeout wp"
  shows "deliver (TimerFires timeout) s =
           s\<lparr>timers := (timers s)(timeout := None),
             eventHandlers := (eventHandlers s)(runId := None),
             wait_promises := (wait_promises s)(wp \<mapsto>
               Rejected (''Agent wait timeout after '' @
                         string_of_nat (unat (agentWaitTimeoutMs (config s))) @ ''ms''))\<rparr>"
  using assms
  by (auto simp add: outstanding_waiter_def deliver_def fire_timer_def drain_def settle_wait_def
      split: option.splits)

lemma deliver_lifecycle_unregistered:
  assumes "microtasks s = []" "eventHandlers s (lc_runId (ap_data pl)) = None"
  shows "deliver (Frame (AgentFrame (Some pl))) s = s"
  using assms by (simp add: deliver_def handleFrame_def drain_def)

subsection \<open>A settled waiter stays settled\<close>

lemma settle_wait_settled:
  "wait_promises s wp = Some v \<Longrightarrow> v \<noteq> Pending \<Longrightarrow> wait_promises (settle_wait p x s) wp = Some v"
  by (auto simp add: settle_wait_def split: option.splits pstate.splits)

lemma settle_request_wait [simp]: "wait_promises (settle_request p x s) = wait_promises s"
  by (simp add: settle_request_def split: option.splits pstate.splits)

lemma clearTimeout_wait [simp]: "wait_promises (clearTimeout t s) = wait_promises s"
  by (simp add: clearTimeout_def)

lemma append_blocks_wait [simp]: "wait_promises (append_blocks bs s) = wait_promises s"
  by (induction bs arbitrary: s) simp_all

lemma chatHandler_wait [simp]: "wait_promises (chatHandler ev s) = wait_promises s"
  by (simp add: chatHandler_def split: EventFrame.splits option.splits chat_message.splits
      content.splits)

lemma run_job_settled:
  "wait_promises s wp = Some v \<Longrightarrow> v \<noteq> Pending \<Longrightarrow> wait_promises (run_job j s) wp = Some v"
  by (cases "(j, s)" rule: run_job.cases) (simp_all add: settle_wait_settled)

lemma fold_run_job_settled:
  "wait_promises s wp = Some v \<Longrightarrow> v \<noteq> Pending \<Longrightarrow>
   wait_promises (fold run_job js s) wp = Some v"
  by (induction js arbitrary: s) (simp_all add: run_job_settled)

lemma drain_settled:
  "wait_promises s wp = Some v \<Longrightarrow> v \<noteq> Pending \<Longrightarrow> wait_promises (drain s) wp = Some v"
  by (simp add: drain_def fold_run_job_settled)

lemma run_evt_handler_settled:
  "wait_promises s wp = Some v \<Longrightarrow> v \<noteq> Pending \<Longrightarrow>
   wait_promises (run_evt_handler h ev s) wp = Some v"
proof (induction h ev s rule: run_evt_handler.induct)
  case (1 runId timeout p event s)
  then show ?case
    by (simp add: settle_wait_settled split: EventFrame.splits phase.splits)
next
  case (2 event s)
  then show ?case by simp
next
  case (3 existingHandler event s)
  then show ?case by simp
qed

lemma run_msg_handler_wait [simp]:
  "wait_promises (run_msg_handler h r s) = wait_promises s"
  by (cases h) (simp add: Let_def)

lemma handleFrame_settled:
  "wait_promises s wp = Some v \<Longrightarrow> v \<noteq> Pending \<Longrightarrow>
   wait_promises (handleFrame fr s) wp = Some v"
  by (cases fr)
     (auto simp add: handleFrame_def Let_def run_evt_handler_settled split: option.splits)

lemma run_timer_cb_settled:
  "wait_promises s wp = Some v \<Longrightarrow> v \<noteq> Pending \<Longrightarrow>
   wait_promises (run_timer_cb cb s) wp = Some v"
  by (cases cb) (simp_all add: settle_wait_settled)

lemma fire_timer_settled:
  "wait_promises s wp = Some v \<Longrightarrow> v \<noteq> Pending \<Longrightarrow>
   wait_promises (fire_timer t s) wp = Some v"
  by (auto simp add: fire_timer_def run_timer_cb_settled split: option.splits)

lemma deliver_settled:
  "wait_promises s wp = Some v \<Longrightarrow> v \<noteq> Pending \<Longrightarrow>
   wait_promises (deliver ev s) wp = Some v"
  by (cases ev) (simp_all add: deliver_def drain_settled handleFrame_settled fire_timer_settled)

lemma fold_deliver_settled:
  "wait_promises s wp = Some v \<Longrightarrow> v \<noteq> Pending \<Longrightarrow>
   wait_promises (fold deliver evs s) wp = Some v"
  by (induction evs arbitrary: s) (simp_all add: deliver_settled)


subsection \<open>A deregistered run stays deregistered\<close>

lemma settle_wait_handlers [simp]: "eventHandlers (settle_wait p x s) = eventHandlers s"
  by (simp add: settle_wait_def split: option.splits pstate.splits)

lemma settle_request_handlers [simp]: "eventHandlers (settle_request p x s) = eventHandlers s"
  by (simp add: settle_request_def split: option.splits pstate.splits)

lemma clearTimeout_handlers [simp]: "eventHandlers (clearTimeout t s) = eventHandlers s"
  by (simp add: clearTimeout_def)

lemma append_blocks_handlers [simp]: "eventHandlers (append_blocks bs s) = eventHandlers s"
  by (induction bs arbitrary: s) simp_all

lemma chatHandler_handlers [simp]: "eventHandlers (chatHandler ev s) = eventHandlers s"
  by (simp add: chatHandler_def split: EventFrame.splits option.splits chat_message.splits
      content.splits)

lemma run_msg_handler_handlers [simp]:
  "eventHandlers (run_msg_handler h r s) = eventHandlers s"
  by (cases h) (simp add: Let_def)

lemma run_job_unregistered:
  "eventHandlers s r = None \<Longrightarrow> eventHandlers (run_job j s) r = None"
  by (cases "(j, s)" rule: run_job.cases) simp_all

lemma fold_run_job_unregistered:
  "eventHandlers s r = None \<Longrightarrow> eventHandlers (fold run_job js s) r = None"
  by (induction js arbitrary: s) (simp_all add: run_job_unregistered)

lemma run_evt_handler_unregistered:
  "eventHandlers s r = None \<Longrightarrow> eventHandlers (run_evt_handler h ev s) r = None"
proof (induction h ev s rule: run_evt_handler.induct)
  case (1 runId timeout p event s)
  then show ?case by (simp split: EventFrame.splits phase.splits)
next
  case (2 event s)
  then show ?case by simp
next
  case (3 existingHandler event s)
  then show ?case by simp
qed

lemma handleFrame_unregistered:
  "eventHandlers s r = None \<Longrightarrow> eventHandlers (handleFrame fr s) r = None"
  by (cases fr)
     (auto simp add: handleFrame_def Let_def run_evt_handler_unregistered split: option.splits)

lemma fire_timer_unregistered:
  "eventHandlers s r = None \<Longrightarrow> eventHandlers (fire_timer t s) r = None"
proof (cases "timers s t")
  case None
  then show "eventHandlers s r = None \<Longrightarrow> ?thesis" by (simp add: fire_timer_def)
next
  case (Some dc)
  obtain d cb where "dc = (d, cb)" by (cases dc)
  with Some show "eventHandlers s r = None \<Longrightarrow> ?thesis"
    by (cases cb) (simp_all add: fire_timer_def)
qed

lemma deliver_unregistered:
  "eventHandlers s r = None \<Longrightarrow> eventHandlers (deliver ev s) r = None"
  by (cases ev)
     (simp_all add: deliver_def drain_def fold_run_job_unregistered handleFrame_unregistered
        fire_timer_unregistered)

lemma fold_deliver_unregistered:
  "eventHandlers s r = None \<Longrightarrow> eventHandlers (fold deliver evs s) r = None"
  by (induction evs arbitrary: s) (simp_all add: deliver_unregistered)


subsection \<open>Requests\<close>

text \<open>
  Claim C5, with the message of the code. A request sent on a connected client is pending
  and is settled by whichever comes first, its response or its deadline. A response with
  \<open>ok\<close> fulfils the promise with the response; a response without \<open>ok\<close> rejects it with
  the server's error message (or, when there is none, with the method followed by "failed");
  the deadline rejects it with "Request timeout for" followed by the method, the capital R
  included. In each case the pending entry is removed, and the losing path, as well as any
  later response with the same id, leaves the whole state of the client as it is. A request on
  a client that is not connected is rejected at once and registers neither a handler nor a
  timer.
\<close>

theorem sendRequest_settles_once:
  assumes "messageId \<noteq> []" and "microtasks s = []"
  shows "case sendRequest method ps timeoutMs messageId s of (p, s1) \<Rightarrow>
     (ws s \<and> connected s \<longrightarrow>
       request_promises s1 p = Some Pending
     \<and> (\<forall>ok pl err. case deliver (Frame (Res messageId ok pl err)) s1 of s2 \<Rightarrow>
         request_promises s2 p =
           Some (if ok
                 then Fulfilled \<lparr> rf_ok = True, rf_id = messageId, rf_result = pl,
                                  rf_payload = pl, rf_error = err, rf_status = ''ok'' \<rparr>
                 else Rejected (or_else (server_error_text err) (method @ '' failed'')))
         \<and> messageHandlers s2 messageId = None
         \<and> deliver (TimerFires (next_timer s)) s2 = s2
         \<and> (\<forall>ok' pl' err'. deliver (Frame (Res messageId ok' pl' err')) s2 = s2))
     \<and> (case deliver (TimerFires (next_timer s)) s1 of s3 \<Rightarrow>
         request_promises s3 p = Some (Rejected (''Request timeout for '' @ method))
         \<and> messageHandlers s3 messageId = None
         \<and> deliver (TimerFires (next_timer s)) s3 = s3
         \<and> (\<forall>ok pl err. deliver (Frame (Res messageId ok pl err)) s3 = s3)))
   \<and> (\<not> (ws s \<and> connected s) \<longrightarrow>
         request_promises s1 p = Some (Rejected ''Not connected to OpenClaw gateway'')
       \<and> messageHandlers s1 = messageHandlers s \<and> timers s1 = timers s \<and> sent s1 = sent s)"
proof -
  obtain p s1 where sr: "sendRequest method ps timeoutMs messageId s = (p, s1)"
    by fastforce
  have connected_part:
    "request_promises s1 p = Some Pending
     \<and> (\<forall>ok pl err. case deliver (Frame (Res messageId ok pl err)) s1 of s2 \<Rightarrow>
         request_promises s2 p =
           Some (if ok
                 then Fulfilled \<lparr> rf_ok = True, rf_id = messageId, rf_result = pl,
                                  rf_payload = pl, rf_error = err, rf_status = ''ok'' \<rparr>
                 else Rejected (or_else (server_error_text err) (method @ '' failed'')))
         \<and> messageHandlers s2 messageId = None
         \<and> deliver (TimerFires (next_timer s)) s2 = s2
         \<and> (\<forall>ok' pl' err'. deliver (Frame (Res messageId ok' pl' err')) s2 = s2))
     \<and> (case deliver (TimerFires (next_timer s)) s1 of s3 \<Rightarrow>
         request_promises s3 p = Some (Rejected (''Request timeout for '' @ method))
         \<and> messageHandlers s3 messageId = None
         \<and> deliver (TimerFires (next_timer s)) s3 = s3
         \<and> (\<forall>ok pl err. deliver (Frame (Res messageId ok pl err)) s3 = s3))"
    if w: "ws s" "connected s"
  proof -
    from sr sendRequest_connected [OF w, of "method" "ps" timeoutMs messageId]
    have f: "microtasks s1 = []"
      "messageHandlers s1 messageId = Some (RequestHandler (next_timer s) p method)"
      "timers s1 (next_timer s) = Some (timeoutMs, RequestTimeout messageId p method)"
      "request_promises s1 p = Some Pending" "request_reactions s1 p = None"
      using assms(2) by auto
    have a: "request_promises s2 p =
             Some (if ok
                 then Fulfilled \<lparr> rf_ok = True, rf_id = messageId, rf_result = pl,
                                  rf_payload = pl, rf_error = err, rf_status = ''ok'' \<rparr>
                 else Rejected (or_else (server_error_text err) (method @ '' failed'')))
           \<and> messageHandlers s2 messageId = None
           \<and> deliver (TimerFires (next_timer s)) s2 = s2
           \<and> (\<forall>ok' pl' err'. deliver (Frame (Res messageId ok' pl' err')) s2 = s2)"
      if "s2 = deliver (Frame (Res messageId ok pl err)) s1" for s2 ok pl err
    proof -
      have s2: "s2 = s1\<lparr>timers := (timers s1)(next_timer s := None),
               request_promises := (request_promises s1)(p \<mapsto>
                 (if ok
                  then Fulfilled \<lparr> rf_ok = True, rf_id = messageId, rf_result = pl,
                                   rf_payload = pl, rf_error = err, rf_status = ''ok'' \<rparr>
                  else Rejected (or_else (server_error_text err) (method @ '' failed'')))),
               messageHandlers := (messageHandlers s1)(messageId := None)\<rparr>"
        unfolding that by (rule deliver_response_pending [OF assms(1) f(1,2,4,5)])
      have g: "microtasks s2 = []" "messageHandlers s2 messageId = None" "timers s2 (next_timer s) = None"
        "request_promises s2 p =
           Some (if ok
                 then Fulfilled \<lparr> rf_ok = True, rf_id = messageId, rf_result = pl,
                                  rf_payload = pl, rf_error = err, rf_status = ''ok'' \<rparr>
                 else Rejected (or_else (server_error_text err) (method @ '' failed'')))"
        by (simp_all add: s2 f(1))
      show ?thesis
        using g deliver_timer_inactive [OF g(1,3)] deliver_response_unknown [OF g(1,2)]
        by simp
    qed
    have b: "request_promises s3 p = Some (Rejected (''Request timeout for '' @ method))
           \<and> messageHandlers s3 messageId = None
           \<and> deliver (TimerFires (next_timer s)) s3 = s3
           \<and> (\<forall>ok pl err. deliver (Frame (Res messageId ok pl err)) s3 = s3)"
      if "s3 = deliver (TimerFires (next_timer s)) s1" for s3
    proof -
      have s3: "s3 = s1\<lparr>timers := (timers s1)(next_timer s := None),
               messageHandlers := (messageHandlers s1)(messageId := None),
               request_promises := (request_promises s1)(p \<mapsto>
                 Rejected (''Request timeout for '' @ method))\<rparr>"
        unfolding that by (rule deliver_request_timeout [OF f(1,3,4,5)])
      have g: "microtasks s3 = []" "messageHandlers s3 messageId = None" "timers s3 (next_timer s) = None"
        "request_promises s3 p = Some (Rejected (''Request timeout for '' @ method))"
        by (simp_all add: s3 f(1))
      show ?thesis
        using g deliver_timer_inactive [OF g(1,3)] deliver_response_unknown [OF g(1,2)]
        by simp
    qed
    show ?thesis
      using a [OF refl] b [OF refl] f(4) by blast
  qed
  have disconnected_part:
    "request_promises s1 p = Some (Rejected ''Not connected to OpenClaw gateway'')
       \<and> messageHandlers s1 = messageHandlers s \<and> timers s1 = timers s \<and> sent s1 = sent s"
    if w: "\<not> (ws s \<and> connected s)"
    using sr sendRequest_not_connected [OF w, of "method" "ps" timeoutMs messageId]
    by auto
  show ?thesis
    unfolding sr prod.case using connected_part disconnected_part by blast
qed

theorem sendRequest_settles_once_witness:
  "''id-1'' \<noteq> [] \<and> microtasks (connected_client demo_config) = []
   \<and> ws (connected_client demo_config) \<and> connected (connected_client demo_config)
   \<and> request_promises
        (deliver (Frame (Res ''id-1'' False None
                    (Some \<lparr> err_message = Some ''session not found'', err_code = None \<rparr>)))
           (snd (sendRequest ''sessions.reset'' (SessionsReset ''agent:main:test'') 30000 ''id-1''
                  (connected_client demo_config)))) 0
      = Some (Rejected ''session not found'')"
proof -
  have h: "''id-1'' \<noteq> []" "microtasks (connected_client demo_config) = []"
    "ws (connected_client demo_config)" "connected (connected_client demo_config)"
    by (simp_all add: connected_client_def)
  have n: "fst (sendRequest ''sessions.reset'' (SessionsReset ''agent:main:test'') 30000 ''id-1''
                  (connected_client demo_config)) = 0"
    by (simp add: sendRequest_connected [OF h(3,4)]) (simp add: connected_client_def)
  have e: "or_else (server_error_text (Some \<lparr> err_message = Some ''session not found'', err_code = None \<rparr>))
             (''sessions.reset'' @ '' failed'') = ''session not found''"
    by (simp add: server_error_text_def or_else_def)
  obtain p s1 where
    sr: "sendRequest ''sessions.reset'' (SessionsReset ''agent:main:test'') 30000 ''id-1''
           (connected_client demo_config) = (p, s1)"
    by fastforce
  have p0: "p = 0" and s1: "s1 = snd (sendRequest ''sessions.reset''
      (SessionsReset ''agent:main:test'') 30000 ''id-1'' (connected_client demo_config))"
    using n sr by simp_all
  from sendRequest_settles_once [OF h(1,2), of "''sessions.reset''"
      "SessionsReset ''agent:main:test''" 30000, unfolded sr prod.case] h(3,4)
  have "\<forall>ok pl err.
          request_promises (deliver (Frame (Res ''id-1'' ok pl err)) s1) p =
            Some (if ok
                  then Fulfilled \<lparr> rf_ok = True, rf_id = ''id-1'', rf_result = pl,
                                   rf_payload = pl, rf_error = err, rf_status = ''ok'' \<rparr>
                  else Rejected (or_else (server_error_text err) (''sessions.reset'' @ '' failed'')))"
    by blast
  then have "request_promises (deliver (Frame (Res ''id-1'' False None
                    (Some \<lparr> err_message = Some ''session not found'', err_code = None \<rparr>))) s1) p
      = Some (Rejected ''session not found'')"
    using e by simp
  with h show ?thesis
    by (simp add: p0 s1)
qed

text \<open>
  The message of the timeout starts with a capital letter: the rejection is not
  "request timeout for sessions.list".
\<close>

theorem sendRequest_timeout_message_counterexample:
  "request_promises
     (deliver (TimerFires 0)
        (snd (sendRequest ''sessions.list'' (SessionsList ''main'') 30000 ''id-1''
               (connected_client demo_config)))) 0
   = Some (Rejected ''Request timeout for sessions.list'')
   \<and> request_promises
     (deliver (TimerFires 0)
        (snd (sendRequest ''sessions.list'' (SessionsList ''main'') 30000 ''id-1''
               (connected_client demo_config)))) 0
   \<noteq> Some (Rejected ''request timeout for sessions.list'')"
  by (simp add: run_defs)

subsection \<open>The completion waiter\<close>

lemma waitForAgent_outstanding:
  "outstanding_waiter (snd (waitForAgent ''run-1'' ''id-1'' (connected_client demo_config)))
     ''run-1'' 0 0"
  by (simp add: outstanding_waiter_def run_defs)

text \<open>
  Claim C1. For a run with an outstanding waiter, the lifecycle event with phase
  \<open>end\<close> takes the waiter's promise from pending to fulfilled, removes the run's handler and
  clears the deadline timer. After that no response frame, and more generally no sequence of
  tasks, changes the promise or registers a handler for the run again: there is no second
  settlement.
\<close>

theorem lifecycle_end_settles_once:
  assumes "outstanding_waiter s runId timeout wp" and "runId \<noteq> []"
  shows "case deliver (Frame (AgentFrame (Some \<lparr> ap_stream = ''lifecycle'',
                 ap_data = \<lparr> lc_phase = PhaseEnd, lc_runId = runId, lc_error = e \<rparr> \<rparr>))) s of
           s2 \<Rightarrow>
             wait_promises s wp = Some Pending
           \<and> wait_promises s2 wp = Some (Fulfilled ())
           \<and> eventHandlers s2 runId = None
           \<and> timers s2 timeout = None
           \<and> (\<forall>messageId ok pl err.
                 wait_promises (deliver (Frame (Res messageId ok pl err)) s2) wp
                   = Some (Fulfilled ())
               \<and> eventHandlers (deliver (Frame (Res messageId ok pl err)) s2) runId = None)
           \<and> (\<forall>evs. wait_promises (fold deliver evs s2) wp = Some (Fulfilled ())
                    \<and> eventHandlers (fold deliver evs s2) runId = None)"
proof -
  define s2 where "s2 = deliver (Frame (AgentFrame (Some \<lparr> ap_stream = ''lifecycle'',
                 ap_data = \<lparr> lc_phase = PhaseEnd, lc_runId = runId, lc_error = e \<rparr> \<rparr>))) s"
  have s2: "s2 = s\<lparr>timers := (timers s)(timeout := None),
             eventHandlers := (eventHandlers s)(runId := None),
             wait_promises := (wait_promises s)(wp \<mapsto> Fulfilled ())\<rparr>"
    unfolding s2_def by (rule deliver_lifecycle_end [OF assms])
  have g: "wait_promises s2 wp = Some (Fulfilled ())" "eventHandlers s2 runId = None"
    "timers s2 timeout = None"
    by (simp_all add: s2)
  have "wait_promises s wp = Some Pending"
    using assms(1) by (simp add: outstanding_waiter_def)
  moreover have "wait_promises (deliver ev s2) wp = Some (Fulfilled ())" for ev
    using g(1) by (rule deliver_settled) simp
  moreover have "eventHandlers (deliver ev s2) runId = None" for ev
    using g(2) by (rule deliver_unregistered)
  moreover have "wait_promises (fold deliver evs s2) wp = Some (Fulfilled ())" for evs
    using g(1) by (rule fold_deliver_settled) simp
  moreover have "eventHandlers (fold deliver evs s2) runId = None" for evs
    using g(2) by (rule fold_deliver_unregistered)
  ultimately show ?thesis
    using g unfolding s2_def [symmetric] by simp
qed

theorem lifecycle_end_settles_once_witness:
  "outstanding_waiter (snd (waitForAgent ''run-1'' ''id-1'' (connected_client demo_config)))
     ''run-1'' 0 0
   \<and> ''run-1'' \<noteq> []
   \<and> wait_promises
       (deliver (Frame (Res ''id-1'' True None None))
          (deliver (Frame (demo_lifecycle PhaseEnd))
             (snd (waitForAgent ''run-1'' ''id-1'' (connected_client demo_config))))) 0
     = Some (Fulfilled ())"
proof -
  have h: "''run-1'' \<noteq> []" by simp
  from lifecycle_end_settles_once [OF waitForAgent_outstanding h, of None]
  have "wait_promises
       (deliver (Frame (Res ''id-1'' True None None))
          (deliver (Frame (demo_lifecycle PhaseEnd))
             (snd (waitForAgent ''run-1'' ''id-1'' (connected_client demo_config))))) 0
     = Some (Fulfilled ())"
    by (simp add: demo_lifecycle_def)
  with waitForAgent_outstanding show ?thesis by simp
qed

text \<open>
  Claim C3, with the message of the code. When the deadline timer of an outstanding
  waiter fires, the waiter's promise is rejected with "Agent wait timeout after", the
  configured timeout and "ms", the capital A included, and the run's handler is removed. The
  timeout is a whole number of milliseconds below \<open>2 ^ 52\<close> and is written in decimal
  digits. A lifecycle event for the run that arrives afterwards, whatever its phase, leaves
  the whole state of the client as it is.
\<close>

theorem agent_wait_deadline_rejects:
  assumes "outstanding_waiter s runId timeout wp"
  shows "case deliver (TimerFires timeout) s of
           s2 \<Rightarrow>
             wait_promises s2 wp =
               Some (Rejected (''Agent wait timeout after '' @
                               string_of_nat (unat (agentWaitTimeoutMs (config s))) @ ''ms''))
           \<and> eventHandlers s2 runId = None
           \<and> (\<forall>ph e. deliver (Frame (AgentFrame (Some \<lparr> ap_stream = ''lifecycle'',
                          ap_data = \<lparr> lc_phase = ph, lc_runId = runId, lc_error = e \<rparr> \<rparr>))) s2
                      = s2)"
proof -
  define s2 where "s2 = deliver (TimerFires timeout) s"
  have s2: "s2 = s\<lparr>timers := (timers s)(timeout := None),
             eventHandlers := (eventHandlers s)(runId := None),
             wait_promises := (wait_promises s)(wp \<mapsto>
               Rejected (''Agent wait timeout after '' @
                         string_of_nat (unat (agentWaitTimeoutMs (config s))) @ ''ms''))\<rparr>"
    unfolding s2_def by (rule deliver_agent_wait_deadline [OF assms])
  have m: "microtasks s = []"
    using assms by (simp add: outstanding_waiter_def)
  have g: "microtasks s2 = []" "eventHandlers s2 runId = None"
    "wait_promises s2 wp =
       Some (Rejected (''Agent wait timeout after '' @
                       string_of_nat (unat (agentWaitTimeoutMs (config s))) @ ''ms''))"
    by (simp_all add: s2 m)
  have "deliver (Frame (AgentFrame (Some \<lparr> ap_stream = ''lifecycle'',
            ap_data = \<lparr> lc_phase = ph, lc_runId = runId, lc_error = e \<rparr> \<rparr>))) s2 = s2" for ph e
    by (rule deliver_lifecycle_unregistered) (simp_all add: g)
  then show ?thesis
    using g unfolding s2_def [symmetric] by simp
qed

theorem agent_wait_deadline_rejects_witness:
  "outstanding_waiter (snd (waitForAgent ''run-1'' ''id-1'' (connected_client demo_config)))
     ''run-1'' 0 0
   \<and> wait_promises
       (deliver (TimerFires 0)
          (snd (waitForAgent ''run-1'' ''id-1'' (connected_client demo_config)))) 0
     = Some (Rejected ''Agent wait timeout after 600000ms'')"
proof -
  have c: "unat (agentWaitTimeoutMs (config (snd (waitForAgent ''run-1'' ''id-1''
             (connected_client demo_config))))) = 600000"
    by (simp add: run_defs)
  have d: "string_of_nat 600000 = ''600000''"
    by (simp add: string_of_nat.simps digit_char_def)
  from agent_wait_deadline_rejects [OF waitForAgent_outstanding]
  have "wait_promises
       (deliver (TimerFires 0)
          (snd (waitForAgent ''run-1'' ''id-1'' (connected_client demo_config)))) 0
     = Some (Rejected ''Agent wait timeout after 600000ms'')"
    by (simp add: c d)
  with waitForAgent_outstanding show ?thesis by simp
qed

text \<open>
  The message of the deadline starts with a capital letter: the rejection is not
  "agent wait timeout after 600000ms".
\<close>

theorem agent_wait_timeout_message_counterexample:
  "wait_promises
     (deliver (TimerFires 0)
        (snd (waitForAgent ''run-1'' ''id-1'' (connected_client demo_config)))) 0
   = Some (Rejected ''Agent wait timeout after 600000ms'')
   \<and> wait_promises
     (deliver (TimerFires 0)
        (snd (waitForAgent ''run-1'' ''id-1'' (connected_client demo_config)))) 0
   \<noteq> Some (Rejected ''agent wait timeout after 600000ms'')"
  by (simp add: run_defs string_of_nat.simps digit_char_def)

subsection \<open>The agent.wait response\<close>

text \<open>
  What the two callbacks chained on the request do. The callback for a response with
  \<open>ok\<close> clears the deadline timer, removes the run's entry and resolves, whatever the
  registry holds; the callback for a failed request does nothing unless the registry holds an
  entry for the run.
\<close>

lemma agent_wait_response_callbacks:
  assumes "agent_wait_in_flight s messageId t p timeout runId wp"
  shows "(case deliver (Frame (Res messageId True pl err)) s of
            s2 \<Rightarrow>
              wait_promises s2 wp =
                (if wait_promises s wp = Some Pending then Some (Fulfilled ())
                 else wait_promises s wp)
            \<and> eventHandlers s2 runId = None
            \<and> timers s2 timeout = None)
       \<and> (case deliver (Frame (Res messageId False pl err)) s of
            s2 \<Rightarrow>
              if eventHandlers s runId = None
              then wait_promises s2 = wait_promises s \<and> eventHandlers s2 = eventHandlers s
              else wait_promises s2 wp =
                     (if wait_promises s wp = Some Pending
                      then Some (Rejected (or_else (server_error_text err) ''agent.wait failed''))
                      else wait_promises s wp)
                   \<and> eventHandlers s2 runId = None
                   \<and> timers s2 timeout = None)"
  using assms
  by (auto simp add: agent_wait_in_flight_def deliver_def handleFrame_def drain_def
      clearTimeout_def settle_request_def settle_wait_def Let_def
      split: option.splits pstate.splits)


subsection \<open>Awaited requests\<close>

lemma drain_empty: "microtasks s = [] \<Longrightarrow> drain s = s"
  by (simp add: drain_def)

lemma await_request_settled:
  "microtasks s = [] \<Longrightarrow> request_outcome s p = Some r \<Longrightarrow> await_request p evs s = Some (r, evs, s)"
  by (cases evs) (simp_all add: drain_empty)

lemma await_request_response:
  assumes "mid \<noteq> []" "microtasks s = []"
      and "messageHandlers s mid = Some (RequestHandler t p method)"
      and "request_promises s p = Some Pending" "request_reactions s p = None"
  shows "await_request p (Frame (Res mid ok pl err) # evs) s =
           Some (if ok then Inr \<lparr> rf_ok = True, rf_id = mid, rf_result = pl,
                                  rf_payload = pl, rf_error = err, rf_status = ''ok'' \<rparr>
                 else Inl (or_else (server_error_text err) (method @ '' failed'')),
                 evs,
                 deliver (Frame (Res mid ok pl err)) s)"
proof -
  have "request_outcome (drain s) p = None"
    using assms by (simp add: drain_def request_outcome_def)
  moreover have "drain s = s" using assms(2) by (simp add: drain_def)
  moreover have "microtasks (deliver (Frame (Res mid ok pl err)) s) = []"
    "request_outcome (deliver (Frame (Res mid ok pl err)) s) p =
       Some (if ok then Inr \<lparr> rf_ok = True, rf_id = mid, rf_result = pl,
                                  rf_payload = pl, rf_error = err, rf_status = ''ok'' \<rparr>
                 else Inl (or_else (server_error_text err) (method @ '' failed'')))"
    by (simp_all add: deliver_response_pending [OF assms] assms(2) request_outcome_def)
  ultimately show ?thesis
    by (simp add: await_request_settled)
qed

lemma await_request_timeout:
  assumes "microtasks s = []" "timers s t = Some (d, RequestTimeout mid p method)"
      and "request_promises s p = Some Pending" "request_reactions s p = None"
  shows "await_request p (TimerFires t # evs) s =
           Some (Inl (''Request timeout for '' @ method), evs, deliver (TimerFires t) s)"
proof -
  have "request_outcome (drain s) p = None"
    using assms by (simp add: drain_def request_outcome_def)
  moreover have "drain s = s" using assms(1) by (simp add: drain_def)
  moreover have "microtasks (deliver (TimerFires t) s) = []"
    "request_outcome (deliver (TimerFires t) s) p = Some (Inl (''Request timeout for '' @ method))"
    by (simp_all add: deliver_request_timeout [OF assms] assms(1) request_outcome_def)
  ultimately show ?thesis
    by (simp add: await_request_settled)
qed

lemma await_sendRequest_response:
  assumes "ws s" "connected s" "mid \<noteq> []" "microtasks s = []"
  shows "case sendRequest meth prm timeoutMs mid s of (p, s1) \<Rightarrow>
           returned (await_request p (Frame (Res mid ok pl err) # evs) s1) =
             Some (if ok then Inr \<lparr> rf_ok = True, rf_id = mid, rf_result = pl,
                                  rf_payload = pl, rf_error = err, rf_status = ''ok'' \<rparr>
                   else Inl (or_else (server_error_text err) (meth @ '' failed'')))
         \<and> returned (await_request p (TimerFires (next_timer s) # evs) s1) =
             Some (Inl (''Request timeout for '' @ meth))"
proof -
  obtain p s1 where sr: "sendRequest meth prm timeoutMs mid s = (p, s1)"
    by fastforce
  from sr sendRequest_connected [OF assms(1,2), of meth prm timeoutMs mid]
  have f: "microtasks s1 = []"
    "messageHandlers s1 mid = Some (RequestHandler (next_timer s) p meth)"
    "timers s1 (next_timer s) = Some (timeoutMs, RequestTimeout mid p meth)"
    "request_promises s1 p = Some Pending" "request_reactions s1 p = None"
    using assms(4) by auto
  show ?thesis
    by (simp add: sr returned_def await_request_response [OF assms(3) f(1,2,4,5)]
        await_request_timeout [OF f(1,3,4,5)] del: await_request.simps)
qed

lemma await_sendRequest_not_connected:
  assumes "\<not> (ws s \<and> connected s)" "microtasks s = []"
  shows "case sendRequest meth prm timeoutMs mid s of (p, s1) \<Rightarrow>
           returned (await_request p evs s1) = Some (Inl ''Not connected to OpenClaw gateway'')"
proof -
  obtain p s1 where sr: "sendRequest meth prm timeoutMs mid s = (p, s1)"
    by fastforce
  from sr sendRequest_not_connected [OF assms(1), of meth prm timeoutMs mid]
  have f: "microtasks s1 = []"
    "request_outcome s1 p = Some (Inl ''Not connected to OpenClaw gateway'')"
    using assms(2) by (auto simp add: request_outcome_def)
  show ?thesis
    by (simp add: sr returned_def await_request_settled [OF f] del: await_request.simps)
qed

subsection \<open>The configuration is never written\<close>

lemma settle_wait_config [simp]: "config (settle_wait p x s) = config s"
  by (simp add: settle_wait_def split: option.splits pstate.splits)

lemma settle_request_config [simp]: "config (settle_request p x s) = config s"
  by (simp add: settle_request_def split: option.splits pstate.splits)

lemma clearTimeout_config [simp]: "config (clearTimeout t s) = config s"
  by (simp add: clearTimeout_def)

lemma append_blocks_config [simp]: "config (append_blocks bs s) = config s"
  by (induction bs arbitrary: s) simp_all

lemma chatHandler_config [simp]: "config (chatHandler ev s) = config s"
  by (simp add: chatHandler_def split: EventFrame.splits option.splits chat_message.splits
      content.splits)

lemma run_msg_handler_config [simp]: "config (run_msg_handler h r s) = config s"
  by (cases h) (simp add: Let_def)

lemma run_job_config [simp]: "config (run_job j s) = config s"
  by (cases "(j, s)" rule: run_job.cases) simp_all

lemma fold_run_job_config [simp]: "config (fold run_job js s) = config s"
  by (induction js arbitrary: s) simp_all

lemma drain_config [simp]: "config (drain s) = config s"
  by (simp add: drain_def)

lemma run_evt_handler_config [simp]: "config (run_evt_handler h ev s) = config s"
  by (induction h ev s rule: run_evt_handler.induct)
     (simp_all split: EventFrame.splits phase.splits)

lemma handleFrame_config [simp]: "config (handleFrame fr s) = config s"
  by (cases fr) (simp_all add: handleFrame_def Let_def split: option.splits)

lemma run_timer_cb_config [simp]: "config (run_timer_cb cb s) = config s"
  by (cases cb) simp_all

lemma fire_timer_config [simp]: "config (fire_timer t s) = config s"
  by (simp add: fire_timer_def split: option.splits)

lemma deliver_config [simp]: "config (deliver ev s) = config s"
  by (cases ev) (simp_all add: deliver_def)

lemma sendRequest_config [simp]: "config (snd (sendRequest method ps timeoutMs mid s)) = config s"
  by (simp add: sendRequest_def setTimeout_def Let_def)

subsection \<open>Session reset\<close>

text \<open>
  Claim C10. \<open>resetSession\<close> returns normally whether the request is answered with
  \<open>ok\<close>, answered without \<open>ok\<close>, times out, or cannot be sent because the client is not
  connected; on no sequence of tasks does it return a rejection.
\<close>

theorem resetSession_never_rejects:
  assumes "messageId \<noteq> []" and "microtasks s = []"
  shows "(ws s \<and> connected s \<longrightarrow>
            returned (resetSession messageId (Frame (Res messageId True pl err) # evs) s)
              = Some (Inr ())
          \<and> returned (resetSession messageId (Frame (Res messageId False pl err) # evs) s)
              = Some (Inr ())
          \<and> returned (resetSession messageId (TimerFires (next_timer s) # evs) s)
              = Some (Inr ()))
       \<and> (\<not> (ws s \<and> connected s) \<longrightarrow>
            returned (resetSession messageId evs s) = Some (Inr ()))
       \<and> (\<forall>script e. returned (resetSession messageId script s) \<noteq> Some (Inl e))"
proof -
  have r: "returned (resetSession messageId script s) =
        (case sendRequest ''sessions.reset'' (SessionsReset (cfg_sessionKey (config s)))
                30000 messageId s of
           (p, s1) \<Rightarrow> map_option (\<lambda>x. Inr ()) (returned (await_request p script s1)))"
    for script
    by (simp add: resetSession_def returned_def split: prod.splits option.splits sum.splits)
  have a: "returned (resetSession messageId (Frame (Res messageId ok pl err) # evs) s)
             = Some (Inr ())
         \<and> returned (resetSession messageId (TimerFires (next_timer s) # evs) s)
             = Some (Inr ())"
    if "ws s" "connected s" for ok
    using await_sendRequest_response [OF that assms,
        where meth = "''sessions.reset''" and prm = "SessionsReset (cfg_sessionKey (config s))"
          and timeoutMs = 30000 and ok = ok and pl = pl and err = err and evs = evs]
    by (simp add: r split: prod.splits)
  have b: "returned (resetSession messageId evs s) = Some (Inr ())"
    if "\<not> (ws s \<and> connected s)"
    using await_sendRequest_not_connected [OF that assms(2),
        where meth = "''sessions.reset''" and prm = "SessionsReset (cfg_sessionKey (config s))"
          and timeoutMs = 30000 and mid = messageId and evs = evs]
    by (simp add: r split: prod.splits)
  have c: "returned (resetSession messageId script s) \<noteq> Some (Inl e)" for script e
    by (auto simp add: r split: prod.splits)
  show ?thesis
    using a b c by blast
qed

theorem resetSession_never_rejects_witness:
  "''id-1'' \<noteq> [] \<and> microtasks (connected_client demo_config) = []
   \<and> ws (connected_client demo_config) \<and> connected (connected_client demo_config)
   \<and> returned (resetSession ''id-1''
        [Frame (Res ''id-1'' False None
           (Some \<lparr> err_message = Some ''session not found'', err_code = None \<rparr>))]
        (connected_client demo_config)) = Some (Inr ())
   \<and> \<not> (ws (disconnect (connected_client demo_config))
         \<and> connected (disconnect (connected_client demo_config)))
   \<and> returned (resetSession ''id-1'' [] (disconnect (connected_client demo_config)))
       = Some (Inr ())"
proof -
  have h: "''id-1'' \<noteq> []" "microtasks (connected_client demo_config) = []"
    "ws (connected_client demo_config)" "connected (connected_client demo_config)"
    by (simp_all add: connected_client_def)
  have d: "microtasks (disconnect (connected_client demo_config)) = []"
    "\<not> (ws (disconnect (connected_client demo_config))
         \<and> connected (disconnect (connected_client demo_config)))"
    by (simp_all add: disconnect_def connected_client_def)
  from resetSession_never_rejects [OF h(1,2), of None
      "Some \<lparr> err_message = Some ''session not found'', err_code = None \<rparr>" "[]"] h(3,4)
  have "returned (resetSession ''id-1''
        [Frame (Res ''id-1'' False None
           (Some \<lparr> err_message = Some ''session not found'', err_code = None \<rparr>))]
        (connected_client demo_config)) = Some (Inr ())"
    by blast
  moreover from resetSession_never_rejects [OF h(1) d(1), of None None "[]"] d(2)
  have "returned (resetSession ''id-1'' [] (disconnect (connected_client demo_config)))
       = Some (Inr ())"
    by blast
  ultimately show ?thesis
    using h d by blast
qed

subsection \<open>Token snapshots\<close>

text \<open>
  Claim C8. On a connected client, when the \<open>sessions.list\<close> response lists a session whose
  key is the configured session key, \<open>getSessionTokens\<close> returns the counters of the first
  such session (a missing counter read as 0, the cache counters as they are); when no listed
  session has the key it returns the snapshot with total, input and output 0; and it returns
  that same all-zero snapshot, not a rejection, when the request is answered without \<open>ok\<close>,
  when it times out, and when the client is not connected.
\<close>

theorem getSessionTokens_snapshot:
  assumes "messageId \<noteq> []" and "microtasks s = []"
  shows "(ws s \<and> connected s \<longrightarrow>
            returned (getSessionTokens messageId
                (Frame (Res messageId True (Some \<lparr> pl_runId = rid, pl_sessions = Some ss \<rparr>) err)
                 # evs) s)
              = Some (Inr (case find (\<lambda>x. sessionKey x = cfg_sessionKey (config s)) ss of
                             Some session \<Rightarrow>
                               \<lparr> tu_total = or_zero (totalTokens session),
                                 tu_input = or_zero (inputTokens session),
                                 tu_output = or_zero (outputTokens session),
                                 tu_cacheCreation = cacheCreationTokens session,
                                 tu_cacheRead = cacheReadTokens session \<rparr>
                           | None \<Rightarrow>
                               \<lparr> tu_total = 0, tu_input = 0, tu_output = 0,
                                 tu_cacheCreation = None, tu_cacheRead = None \<rparr>))
          \<and> ((\<forall>x \<in> set ss. sessionKey x \<noteq> cfg_sessionKey (config s)) \<longrightarrow>
               returned (getSessionTokens messageId
                (Frame (Res messageId True (Some \<lparr> pl_runId = rid, pl_sessions = Some ss \<rparr>) err)
                 # evs) s)
              = Some (Inr \<lparr> tu_total = 0, tu_input = 0, tu_output = 0,
                             tu_cacheCreation = None, tu_cacheRead = None \<rparr>))
          \<and> returned (getSessionTokens messageId (Frame (Res messageId False pl err) # evs) s)
              = Some (Inr \<lparr> tu_total = 0, tu_input = 0, tu_output = 0,
                             tu_cacheCreation = None, tu_cacheRead = None \<rparr>)
          \<and> returned (getSessionTokens messageId (TimerFires (next_timer s) # evs) s)
              = Some (Inr \<lparr> tu_total = 0, tu_input = 0, tu_output = 0,
                             tu_cacheCreation = None, tu_cacheRead = None \<rparr>))
       \<and> (\<not> (ws s \<and> connected s) \<longrightarrow>
            returned (getSessionTokens messageId evs s)
              = Some (Inr \<lparr> tu_total = 0, tu_input = 0, tu_output = 0,
                             tu_cacheCreation = None, tu_cacheRead = None \<rparr>))"
proof -
  define key where "key = cfg_sessionKey (config s)"
  obtain p s1 where sr: "sendRequest ''sessions.list'' (SessionsList ''main'') 30000 messageId s = (p, s1)"
    by fastforce
  have c1: "config s1 = config s"
    using sendRequest_config [of "''sessions.list''" "SessionsList ''main''" 30000 messageId s] sr
    by simp
  have g: "returned (getSessionTokens messageId script s) = Some (Inr (session_tokens key outcome))"
    if "await_request p script s1 = Some (outcome, rest, deliver ev s1)" for script outcome rest ev
    using that by (simp add: getSessionTokens_def sr returned_def c1 key_def)
  have g0: "returned (getSessionTokens messageId script s) = Some (Inr (session_tokens key outcome))"
    if "await_request p script s1 = Some (outcome, rest, s1)" for script outcome rest
    using that by (simp add: getSessionTokens_def sr returned_def c1 key_def)
  have z: "session_tokens key (Inl e) = \<lparr> tu_total = 0, tu_input = 0, tu_output = 0,
                             tu_cacheCreation = None, tu_cacheRead = None \<rparr>" for e
    by (simp add: session_tokens_def zero_tokens_def)
  have connected_part: ?thesis if w: "ws s" "connected s"
  proof -
    from sr sendRequest_connected [OF w, of "''sessions.list''" "SessionsList ''main''" 30000 messageId]
    have f: "microtasks s1 = []"
      "messageHandlers s1 messageId = Some (RequestHandler (next_timer s) p ''sessions.list'')"
      "timers s1 (next_timer s) = Some (30000, RequestTimeout messageId p ''sessions.list'')"
      "request_promises s1 p = Some Pending" "request_reactions s1 p = None"
      using assms(2) by auto
    note resp = await_request_response [OF assms(1) f(1,2,4,5)]
    note tmo = await_request_timeout [OF f(1,3,4,5)]
    have r1: "await_request p
                (Frame (Res messageId True (Some \<lparr> pl_runId = rid, pl_sessions = Some ss \<rparr>) err)
                 # evs) s1 =
              Some (Inr \<lparr> rf_ok = True, rf_id = messageId,
                           rf_result = Some \<lparr> pl_runId = rid, pl_sessions = Some ss \<rparr>,
                           rf_payload = Some \<lparr> pl_runId = rid, pl_sessions = Some ss \<rparr>,
                           rf_error = err, rf_status = ''ok'' \<rparr>, evs,
                    deliver (Frame (Res messageId True
                       (Some \<lparr> pl_runId = rid, pl_sessions = Some ss \<rparr>) err)) s1)"
      using resp [of True "Some \<lparr> pl_runId = rid, pl_sessions = Some ss \<rparr>" err evs]
      by (simp del: await_request.simps)
    have r2: "await_request p (Frame (Res messageId False pl err) # evs) s1 =
              Some (Inl (or_else (server_error_text err) (''sessions.list'' @ '' failed'')), evs,
                    deliver (Frame (Res messageId False pl err)) s1)"
      using resp [of False pl err evs]
      by (simp del: await_request.simps)
    have a: "returned (getSessionTokens messageId
                (Frame (Res messageId True (Some \<lparr> pl_runId = rid, pl_sessions = Some ss \<rparr>) err)
                 # evs) s)
              = Some (Inr (case find (\<lambda>x. sessionKey x = key) ss of
                             Some session \<Rightarrow>
                               \<lparr> tu_total = or_zero (totalTokens session),
                                 tu_input = or_zero (inputTokens session),
                                 tu_output = or_zero (outputTokens session),
                                 tu_cacheCreation = cacheCreationTokens session,
                                 tu_cacheRead = cacheReadTokens session \<rparr>
                           | None \<Rightarrow>
                               \<lparr> tu_total = 0, tu_input = 0, tu_output = 0,
                                 tu_cacheCreation = None, tu_cacheRead = None \<rparr>))"
      using g [OF r1]
      by (simp add: session_tokens_def zero_tokens_def split: option.splits)
    have n: "find (\<lambda>x. sessionKey x = key) ss = None"
      if "\<forall>x \<in> set ss. sessionKey x \<noteq> key"
      using that by (simp add: find_None_iff)
    have b: "returned (getSessionTokens messageId (Frame (Res messageId False pl err) # evs) s)
              = Some (Inr \<lparr> tu_total = 0, tu_input = 0, tu_output = 0,
                             tu_cacheCreation = None, tu_cacheRead = None \<rparr>)"
      using g [OF r2] by (simp add: z)
    have c: "returned (getSessionTokens messageId (TimerFires (next_timer s) # evs) s)
              = Some (Inr \<lparr> tu_total = 0, tu_input = 0, tu_output = 0,
                             tu_cacheCreation = None, tu_cacheRead = None \<rparr>)"
      using g [OF tmo [of evs]] by (simp add: z)
    show ?thesis
      using w a b c n unfolding key_def [symmetric] by simp
  qed
  have disconnected_part: ?thesis if w: "\<not> (ws s \<and> connected s)"
  proof -
    from sr sendRequest_not_connected [OF w, of "''sessions.list''" "SessionsList ''main''" 30000 messageId]
    have f: "microtasks s1 = []"
      "request_outcome s1 p = Some (Inl ''Not connected to OpenClaw gateway'')"
      using assms(2) by (auto simp add: request_outcome_def)
    show ?thesis
      using w g0 [OF await_request_settled [OF f, of evs]] by (auto simp add: z)
  qed
  show ?thesis
    using connected_part disconnected_part by blast
qed

theorem getSessionTokens_snapshot_witness:
  "''u1'' \<noteq> [] \<and> microtasks (connected_client demo_config) = []
   \<and> ws (connected_client demo_config) \<and> connected (connected_client demo_config)
   \<and> returned (getSessionTokens ''u1''
        [Frame (Res ''u1'' True
           (Some \<lparr> pl_runId = None, pl_sessions = Some [demo_session 100 60 40] \<rparr>) None)]
        (connected_client demo_config))
      = Some (Inr \<lparr> tu_total = 100, tu_input = 60, tu_output = 40,
                     tu_cacheCreation = None, tu_cacheRead = None \<rparr>)
   \<and> returned (getSessionTokens ''u1''
        [Frame (Res ''u1'' True
           (Some \<lparr> pl_runId = None,
                   pl_sessions = Some [(demo_session 7 5 2)\<lparr>sessionKey := ''agent:main:other''\<rparr>] \<rparr>)
           None)]
        (connected_client demo_config))
      = Some (Inr \<lparr> tu_total = 0, tu_input = 0, tu_output = 0,
                     tu_cacheCreation = None, tu_cacheRead = None \<rparr>)
   \<and> \<not> (ws (disconnect (connected_client demo_config))
         \<and> connected (disconnect (connected_client demo_config)))
   \<and> returned (getSessionTokens ''u1'' [] (disconnect (connected_client demo_config)))
      = Some (Inr \<lparr> tu_total = 0, tu_input = 0, tu_output = 0,
                     tu_cacheCreation = None, tu_cacheRead = None \<rparr>)"
proof -
  have h: "''u1'' \<noteq> []" "microtasks (connected_client demo_config) = []"
    "ws (connected_client demo_config)" "connected (connected_client demo_config)"
    by (simp_all add: connected_client_def)
  have d: "microtasks (disconnect (connected_client demo_config)) = []"
    "\<not> (ws (disconnect (connected_client demo_config))
         \<and> connected (disconnect (connected_client demo_config)))"
    by (simp_all add: disconnect_def connected_client_def)
  have k: "cfg_sessionKey (config (connected_client demo_config)) = ''agent:main:test''"
    by (simp add: connected_client_def demo_config_def)
  have f: "find (\<lambda>x. sessionKey x = ''agent:main:test'') [demo_session 100 60 40]
             = Some (demo_session 100 60 40)"
    by (simp add: demo_session_def)
  from getSessionTokens_snapshot [OF h(1,2), of None "[demo_session 100 60 40]" None "[]"] h(3,4)
  have a: "returned (getSessionTokens ''u1''
        [Frame (Res ''u1'' True
           (Some \<lparr> pl_runId = None, pl_sessions = Some [demo_session 100 60 40] \<rparr>) None)]
        (connected_client demo_config))
      = Some (Inr \<lparr> tu_total = 100, tu_input = 60, tu_output = 40,
                     tu_cacheCreation = None, tu_cacheRead = None \<rparr>)"
    by (simp add: k f) (simp add: demo_session_def or_zero_def)
  have o: "\<forall>x \<in> set [(demo_session 7 5 2)\<lparr>sessionKey := ''agent:main:other''\<rparr>].
             sessionKey x \<noteq> cfg_sessionKey (config (connected_client demo_config))"
    by (simp add: k)
  from getSessionTokens_snapshot [OF h(1,2), of None
      "[(demo_session 7 5 2)\<lparr>sessionKey := ''agent:main:other''\<rparr>]" None "[]"] h(3,4) o
  have b: "returned (getSessionTokens ''u1''
        [Frame (Res ''u1'' True
           (Some \<lparr> pl_runId = None,
                   pl_sessions = Some [(demo_session 7 5 2)\<lparr>sessionKey := ''agent:main:other''\<rparr>] \<rparr>)
           None)]
        (connected_client demo_config))
      = Some (Inr \<lparr> tu_total = 0, tu_input = 0, tu_output = 0,
                     tu_cacheCreation = None, tu_cacheRead = None \<rparr>)"
    by blast
  from getSessionTokens_snapshot [OF h(1) d(1), of None "[]" None "[]"] d(2)
  have c: "returned (getSessionTokens ''u1'' [] (disconnect (connected_client demo_config)))
      = Some (Inr \<lparr> tu_total = 0, tu_input = 0, tu_output = 0,
                     tu_cacheCreation = None, tu_cacheRead = None \<rparr>)"
    by blast
  show ?thesis
    using h d a b c by simp
qed

subsection \<open>Sending a prompt\<close>

lemma demo_run:
  "returned (sendPrompt ''hello'' demo_uuids demo_script (connected_client demo_config))
     = Some (Inr \<lparr> response = [],
                    tokens = \<lparr> tu_total = 50, tu_input = 30, tu_output = 20,
                               tu_cacheCreation = None, tu_cacheRead = None \<rparr>,
                    timeMs = 1500 \<rparr>)
   \<and> clock_after (sendPrompt ''hello'' demo_uuids demo_script (connected_client demo_config))
     = Some 1750"
  by (simp add: run_defs demo_session_def demo_script_def demo_uuids_def demo_delta_def
      demo_lifecycle_def)

lemma chatHandler_accumulates:
  "accumulatedResponse
     (fold chatHandler
        [ChatEv \<lparr> chat_runId = r, chat_sessionKey = k, chat_seq = 1, chat_state = Delta,
                  chat_message = Some (MessageString ''Hel'') \<rparr>,
         ChatEv \<lparr> chat_runId = r, chat_sessionKey = k, chat_seq = 2, chat_state = Delta,
                  chat_message = Some (MessageObject (Some (ContentString ''lo, ''))) \<rparr>,
         ChatEv \<lparr> chat_runId = r, chat_sessionKey = k, chat_seq = 3, chat_state = Delta,
                  chat_message = Some (MessageObject (Some (ContentBlocks
                    [\<lparr> block_type = ''tool_use'', block_text = Some ''x'' \<rparr>,
                     \<lparr> block_type = ''text'', block_text = Some ''wor'' \<rparr>,
                     \<lparr> block_type = ''text'', block_text = Some ''ld'' \<rparr>]))) \<rparr>] s)
   = accumulatedResponse s @ ''Hello, world''"
  by (simp add: chatHandler_def truthy_def)

lemma waitForAgent_replaces_prompt_handler:
  "eventHandlers
     (snd (waitForAgent runId messageId
        (s\<lparr>eventHandlers := (eventHandlers s)(runId \<mapsto> PromptHandler existingHandler)\<rparr>)))
     runId
   = Some (LifecycleHandler runId (next_timer s) (next_wait_promise s))"
  by (simp add: waitForAgent_def sendRequest_def setTimeout_def then_catch_def Let_def
      split: prod.splits)

lemma lifecycle_handler_ignores_chat:
  assumes "eventHandlers s (chat_runId chatEvent) = Some (LifecycleHandler r t wp)"
      and "microtasks s = []"
  shows "deliver (Frame (ChatFrame (Some chatEvent))) s = s"
  using assms by (simp add: deliver_def handleFrame_def drain_def)

text \<open>
  Claim C4, evaluated on the code. In the sample prompt the deltas "Hel", "lo, " and
  "world" arrive for the run while \<open>sendPrompt\<close> awaits its completion, and the returned
  response text is empty, not "Hello, world": \<open>waitForAgent\<close> stores its lifecycle handler
  under the run id, in place of the handler that \<open>sendPrompt\<close> registered just before, and
  the lifecycle handler ignores chat events.
\<close>

theorem sendPrompt_drops_deltas:
  "returned (sendPrompt ''hello'' demo_uuids demo_script (connected_client demo_config))
     = Some (Inr \<lparr> response = [],
                    tokens = \<lparr> tu_total = 50, tu_input = 30, tu_output = 20,
                               tu_cacheCreation = None, tu_cacheRead = None \<rparr>,
                    timeMs = 1500 \<rparr>)
   \<and> returned (sendPrompt ''hello'' demo_uuids demo_script (connected_client demo_config))
     \<noteq> Some (Inr \<lparr> response = ''Hello, world'',
                    tokens = \<lparr> tu_total = 50, tu_input = 30, tu_output = 20,
                               tu_cacheCreation = None, tu_cacheRead = None \<rparr>,
                    timeMs = 1500 \<rparr>)"
  using demo_run by simp

subsection \<open>The clock\<close>

lemma elapsed_in_append: "elapsed_in (xs @ ys) = elapsed_in xs + elapsed_in ys"
  by (induction xs rule: elapsed_in.induct) simp_all

lemma settle_wait_now [simp]: "now (settle_wait p x s) = now s"
  by (simp add: settle_wait_def split: option.splits pstate.splits)

lemma settle_request_now [simp]: "now (settle_request p x s) = now s"
  by (simp add: settle_request_def split: option.splits pstate.splits)

lemma clearTimeout_now [simp]: "now (clearTimeout t s) = now s"
  by (simp add: clearTimeout_def)

lemma append_blocks_now [simp]: "now (append_blocks bs s) = now s"
  by (induction bs arbitrary: s) simp_all

lemma chatHandler_now [simp]: "now (chatHandler ev s) = now s"
  by (simp add: chatHandler_def split: EventFrame.splits option.splits chat_message.splits
      content.splits)

lemma run_msg_handler_now [simp]: "now (run_msg_handler h r s) = now s"
  by (cases h) (simp add: Let_def)

lemma run_job_now [simp]: "now (run_job j s) = now s"
  by (cases "(j, s)" rule: run_job.cases) simp_all

lemma fold_run_job_now [simp]: "now (fold run_job js s) = now s"
  by (induction js arbitrary: s) simp_all

lemma drain_now [simp]: "now (drain s) = now s"
  by (simp add: drain_def)

lemma run_evt_handler_now [simp]: "now (run_evt_handler h ev s) = now s"
  by (induction h ev s rule: run_evt_handler.induct)
     (simp_all split: EventFrame.splits phase.splits)

lemma handleFrame_now [simp]: "now (handleFrame fr s) = now s"
  by (cases fr) (simp_all add: handleFrame_def Let_def split: option.splits)

lemma run_timer_cb_now [simp]: "now (run_timer_cb cb s) = now s"
  by (cases cb) simp_all

lemma fire_timer_now [simp]: "now (fire_timer t s) = now s"
  by (simp add: fire_timer_def split: option.splits)

lemma deliver_now: "now (deliver ev s) = now s + elapsed_in [ev]"
  by (cases ev) (simp_all add: deliver_def)


lemma then_catch_now [simp]: "now (then_catch p r s) = now s"
  by (simp add: then_catch_def split: option.splits pstate.splits)



lemma fold_deliver_now: "now (fold deliver evs s) = now s + elapsed_in evs"
proof (induction evs arbitrary: s)
  case Nil
  then show ?case by simp
next
  case (Cons ev evs)
  have "elapsed_in (ev # evs) = elapsed_in [ev] + elapsed_in evs"
    using elapsed_in_append [of "[ev]" evs] by simp
  with Cons show ?case
    by (simp add: deliver_now)
qed

subsection \<open>The tasks an await consumes\<close>








end
